theory Spec2Isabelle
  imports Complex_Main "HOL-Library.Sublist"
begin

section \<open>The storefront backend: data model\<close>

text \<open>
  The store is a relational database reached through a generated client; the handlers of
  \<^verbatim>\<open>api/src/index.ts\<close> are the only code that touches it. A table is a list of
  rows in insertion order. Identifiers are the opaque strings the client hands out.
  The schema file is not among the sources: the integer columns are taken to be the
  client's signed 32-bit \<^verbatim>\<open>Int\<close> scalar. A row holds an \<open>int\<close>; what a write does
  with a number that is no 32-bit integer is said where the writes are defined.
\<close>

type_synonym ident = string

record Category =
  c_id :: ident
  c_name :: string
  c_slug :: string

record Product =
  p_id :: ident
  p_name :: string
  p_slug :: string
  p_description :: string
  p_priceCents :: int
  p_imageUrl :: "string option"
  p_stock :: int
  p_categoryId :: ident
  p_createdAt :: int

datatype role = USER | ADMIN

record User =
  u_id :: ident
  u_email :: string
  u_passwordHash :: string
  u_role :: role

record Order =
  o_id :: ident
  o_userEmail :: "string option"
  o_totalCents :: int

record OrderItem =
  oi_orderId :: ident
  oi_productId :: ident
  oi_quantity :: int
  oi_priceCents :: int

record db =
  categories :: "Category list"
  products :: "Product list"
  users :: "User list"
  orders :: "Order list"
  orderItems :: "OrderItem list"

text \<open>
  What a handler can throw. A thrown value either reaches a \<^verbatim>\<open>catch\<close> of the handler
  or rejects the handler's promise, in which case the handler itself sends no response.
\<close>

datatype exn = TypeError | RecordNotFound | UniqueConstraint | ValidationError | IllegalArguments

text \<open>
  A JavaScript number as far as the product list needs one: \<open>NaN\<close>, or a number,
  taken as an exact rational.
\<close>

datatype jsnum = NaN | Num rat

text \<open>
  The responses: \<^verbatim>\<open>res.status(n).json(b)\<close>, with status 200 when no status is set,
  and the \<^verbatim>\<open>auth\<close> cookie when \<^verbatim>\<open>setAuthCookie\<close> was called.
\<close>

datatype body =
    Error string
  | CheckoutOk ident rat
  | UserInfo ident string role
  | Item Product
  | Page "Product list" jsnum jsnum nat jsnum

record response =
  status :: nat
  body :: body
  setCookie :: "string option"

definition json :: "nat \<Rightarrow> body \<Rightarrow> response" where
  "json st b = \<lparr>status = st, body = b, setCookie = None\<rparr>"

section \<open>The environment\<close>

text \<open>
  A string is the list of the bytes of its UTF-8 form. What the language, the store and
  the libraries do with strings is not code of the repository and is a parameter of the
  model, together with the variable \<^verbatim>\<open>JWT_SECRET\<close> of the process:
  \<^item> \<open>toLowerCase\<close> and \<open>trim\<close> are the methods of JavaScript strings;
  \<^item> \<open>contains_insensitive\<close> and \<open>equals_insensitive\<close> are the store's tests
    \<^verbatim>\<open>{ contains: q, mode: 'insensitive' }\<close> and \<^verbatim>\<open>{ equals: q, mode: 'insensitive' }\<close>,
    given the value of the column and then \<^verbatim>\<open>q\<close>;
  \<^item> \<open>bcrypt_hash\<close> takes the password, the cost and the salt the library draws;
  \<^item> \<open>jwt_sign\<close> takes the user identifier of the payload, the secret, the lifetime in
    seconds and the time of signing; \<open>jwt_verify\<close> takes the token, the secret and the
    time of the check, and answers the \<^verbatim>\<open>uid\<close> of the payload, or \<open>None\<close> where the
    library throws.
\<close>

record env =
  JWT_SECRET :: "string option"
  toLowerCase :: "string \<Rightarrow> string"
  trim :: "string \<Rightarrow> string"
  contains_insensitive :: "string \<Rightarrow> string \<Rightarrow> bool"
  equals_insensitive :: "string \<Rightarrow> string \<Rightarrow> bool"
  bcrypt_hash :: "string \<Rightarrow> nat \<Rightarrow> string \<Rightarrow> string"
  bcrypt_compare :: "string \<Rightarrow> string \<Rightarrow> bool"
  jwt_sign :: "ident \<Rightarrow> string \<Rightarrow> nat \<Rightarrow> nat \<Rightarrow> string"
  jwt_verify :: "string \<Rightarrow> string \<Rightarrow> nat \<Rightarrow> ident option"

section \<open>Writing numbers to integer columns\<close>

text \<open>
  A JavaScript number, here an exact rational, written to an \<^verbatim>\<open>Int\<close> column: the
  store keeps the whole part, and refuses a value that does not fit 32 bits.
\<close>

definition Int32 :: "int \<Rightarrow> bool" where
  "Int32 n \<longleftrightarrow> - 2147483648 \<le> n \<and> n \<le> 2147483647"

definition whole :: "rat \<Rightarrow> int" where
  "whole x = (if 0 \<le> x then \<lfloor>x\<rfloor> else \<lceil>x\<rceil>)"

definition to_Int :: "rat \<Rightarrow> exn + int" where
  "to_Int x = (if Int32 (whole x) then Inr (whole x) else Inl ValidationError)"

section \<open>Checkout\<close>

text \<open>
  The body of the request: \<^verbatim>\<open>{ email?: string; items: { productId: string; quantity: number }[] }\<close>.
  A quantity is any number; the handler does not ask for a whole one.
\<close>

record cart_item =
  productId :: ident
  quantity :: rat

record checkout_body =
  co_email :: "string option"
  co_items :: "cart_item list option"

text \<open>
  \<^verbatim>\<open>const ids = items.map((i) => i.productId)\<close> and
  \<^verbatim>\<open>prisma.product.findMany({ where: { id: { in: ids } } })\<close>: the read that the
  handler awaits before it validates.
\<close>

definition findMany_in :: "db \<Rightarrow> ident list \<Rightarrow> Product list" where
  "findMany_in d ids = filter (\<lambda>p. p_id p \<in> set ids) (products d)"

definition checkout_read :: "db \<Rightarrow> cart_item list \<Rightarrow> Product list" where
  "checkout_read d its = findMany_in d (map productId its)"

text \<open>\<^verbatim>\<open>new Map(products.map((p) => [p.id, p]))\<close>: a later entry replaces an earlier one.\<close>

definition Map_of :: "Product list \<Rightarrow> (ident \<rightharpoonup> Product)" where
  "Map_of ps = foldl (\<lambda>m p. m(p_id p \<mapsto> p)) Map.empty ps"

text \<open>The validation loop: the first failing check of the first failing item answers.\<close>

fun validate :: "(ident \<rightharpoonup> Product) \<Rightarrow> cart_item list \<Rightarrow> response option" where
  "validate m [] = None"
| "validate m (i # rest) =
     (case m (productId i) of
        None \<Rightarrow> Some (json 400 (Error (''Product not found: '' @ productId i)))
      | Some p \<Rightarrow>
          if quantity i < 1 then Some (json 400 (Error ''Invalid quantity''))
          else if of_int (p_stock p) < quantity i
            then Some (json 400 (Error (''Not enough stock for '' @ p_name p)))
          else validate m rest)"

text \<open>
  \<^verbatim>\<open>items.reduce((sum, i) => sum + map.get(i.productId)!.priceCents * i.quantity, 0)\<close>;
  reading \<^verbatim>\<open>priceCents\<close> of a missing entry throws. The accumulator
  \<^verbatim>\<open>sum\<close> is \<open>acc\<close> here.
\<close>

fun reduce_total :: "(ident \<rightharpoonup> Product) \<Rightarrow> rat \<Rightarrow> cart_item list \<Rightarrow> exn + rat" where
  "reduce_total m acc [] = Inr acc"
| "reduce_total m acc (i # rest) =
     (case m (productId i) of
        None \<Rightarrow> Inl TypeError
      | Some p \<Rightarrow> reduce_total m (acc + of_int (p_priceCents p) * quantity i) rest)"

text \<open>
  The statements of the transaction. \<^verbatim>\<open>order.create\<close> stores the row under the
  identifier the store draws for it (an input of the model) and fails on a clash with
  an existing one; \<^verbatim>\<open>orderItem.create\<close> stores a line; \<^verbatim>\<open>product.update\<close>
  fails when no row has the identifier or when the new row has a price or a stock that
  does not fit 32 bits, and \<^verbatim>\<open>{ stock: { decrement: n } }\<close> lowers the row's current
  stock by the whole part of \<^verbatim>\<open>n\<close>.
\<close>

definition order_create :: "db \<Rightarrow> ident \<Rightarrow> string option \<Rightarrow> rat \<Rightarrow> exn + db" where
  "order_create d oid em totalCents =
     (case to_Int totalCents of
        Inl e \<Rightarrow> Inl e
      | Inr t \<Rightarrow>
          if oid \<in> set (map o_id (orders d)) then Inl UniqueConstraint
          else Inr (d\<lparr>orders := orders d @
                      [\<lparr>o_id = oid, o_userEmail = em, o_totalCents = t\<rparr>]\<rparr>))"

definition orderItem_create :: "db \<Rightarrow> ident \<Rightarrow> ident \<Rightarrow> rat \<Rightarrow> int \<Rightarrow> exn + db" where
  "orderItem_create d oid pid qty price =
     (case to_Int qty of
        Inl e \<Rightarrow> Inl e
      | Inr n \<Rightarrow>
          Inr (d\<lparr>orderItems := orderItems d @
                 [\<lparr>oi_orderId = oid, oi_productId = pid, oi_quantity = n,
                   oi_priceCents = price\<rparr>]\<rparr>))"

definition row_fits :: "Product \<Rightarrow> bool" where
  "row_fits p \<longleftrightarrow> Int32 (p_priceCents p) \<and> Int32 (p_stock p)"

definition product_update :: "db \<Rightarrow> ident \<Rightarrow> (Product \<Rightarrow> Product) \<Rightarrow> exn + db" where
  "product_update d pid f =
     (if pid \<notin> set (map p_id (products d)) then Inl RecordNotFound
      else if \<exists>p\<in>set (products d). p_id p = pid \<and> \<not> row_fits (f p) then Inl ValidationError
      else Inr (d\<lparr>products := map (\<lambda>p. if p_id p = pid then f p else p) (products d)\<rparr>))"

definition decrement_stock :: "int \<Rightarrow> Product \<Rightarrow> Product" where
  "decrement_stock n p = p\<lparr>p_stock := p_stock p - n\<rparr>"

definition product_decrement :: "db \<Rightarrow> ident \<Rightarrow> rat \<Rightarrow> exn + db" where
  "product_decrement d pid qty =
     (case to_Int qty of
        Inl e \<Rightarrow> Inl e
      | Inr n \<Rightarrow> product_update d pid (decrement_stock n))"

fun tx_items :: "db \<Rightarrow> ident \<Rightarrow> (ident \<rightharpoonup> Product) \<Rightarrow> cart_item list \<Rightarrow> exn + db" where
  "tx_items d oid m [] = Inr d"
| "tx_items d oid m (i # rest) =
     (case m (productId i) of
        None \<Rightarrow> Inl TypeError
      | Some p \<Rightarrow>
          (case orderItem_create d oid (p_id p) (quantity i) (p_priceCents p) of
             Inl e \<Rightarrow> Inl e
           | Inr d1 \<Rightarrow>
               (case product_decrement d1 (p_id p) (quantity i) of
                  Inl e \<Rightarrow> Inl e
                | Inr d2 \<Rightarrow> tx_items d2 oid m rest)))"

text \<open>\<^verbatim>\<open>email?.toLowerCase() || null\<close>\<close>

definition order_email :: "env \<Rightarrow> string option \<Rightarrow> string option" where
  "order_email E em =
     (case em of
        None \<Rightarrow> None
      | Some e \<Rightarrow> if toLowerCase E e = [] then None else Some (toLowerCase E e))"

text \<open>
  \<^verbatim>\<open>prisma.$transaction\<close>, taken as one indivisible step of the store: either every
  statement of the body takes effect, or the body throws and none does.
\<close>

definition transaction ::
  "env \<Rightarrow> db \<Rightarrow> ident \<Rightarrow> string option \<Rightarrow> rat \<Rightarrow> (ident \<rightharpoonup> Product) \<Rightarrow> cart_item list
     \<Rightarrow> exn + db" where
  "transaction E d oid em totalCents m its =
     (case order_create d oid (order_email E em) totalCents of
        Inl e \<Rightarrow> Inl e
      | Inr d1 \<Rightarrow> tx_items d1 oid m its)"

text \<open>
  The handler from the point where \<^verbatim>\<open>findMany\<close> has answered with \<open>snapshot\<close>: it
  validates and totals on the snapshot, then runs the transaction on the store as it is
  by then. Whatever is thrown is caught and answered with status 500.
\<close>

definition checkout_resume ::
  "env \<Rightarrow> cart_item list \<Rightarrow> string option \<Rightarrow> Product list \<Rightarrow> db \<Rightarrow> ident
     \<Rightarrow> response \<times> db" where
  "checkout_resume E its em snapshot d oid =
     (let m = Map_of snapshot in
      case validate m its of
        Some r \<Rightarrow> (r, d)
      | None \<Rightarrow>
          (case reduce_total m 0 its of
             Inl e \<Rightarrow> (json 500 (Error ''Checkout failed''), d)
           | Inr totalCents \<Rightarrow>
               (case transaction E d oid em totalCents m its of
                  Inl e \<Rightarrow> (json 500 (Error ''Checkout failed''), d)
                | Inr d' \<Rightarrow> (json 200 (CheckoutOk oid totalCents), d'))))"

text \<open>
  \<^verbatim>\<open>POST /api/v1/checkout\<close> served without any other request in between: the
  snapshot is read from the very store the transaction then runs on.
\<close>

definition checkout :: "env \<Rightarrow> db \<Rightarrow> ident \<Rightarrow> checkout_body \<Rightarrow> response \<times> db" where
  "checkout E d oid b =
     (case co_items b of
        None \<Rightarrow> (json 400 (Error ''No items''), d)
      | Some its \<Rightarrow>
          if its = [] then (json 400 (Error ''No items''), d)
          else checkout_resume E its (co_email b) (checkout_read d its) d oid)"

text \<open>
  Two checkouts in flight at once. The handler gives way at each \<^verbatim>\<open>await\<close>, so
  the store may answer both reads before it runs either transaction; each request then
  validates on its own snapshot, and the transactions run one after the other, each as
  one indivisible step.
\<close>

definition two_checkouts_interleaved ::
  "env \<Rightarrow> db \<Rightarrow> cart_item list \<Rightarrow> ident \<Rightarrow> cart_item list \<Rightarrow> ident
     \<Rightarrow> response \<times> response \<times> db" where
  "two_checkouts_interleaved E d itsA oidA itsB oidB =
     (let snapA = checkout_read d itsA;
          snapB = checkout_read d itsB;
          (rA, d1) = checkout_resume E itsA None snapA d oidA;
          (rB, d2) = checkout_resume E itsB None snapB d1 oidB
      in (rA, rB, d2))"

section \<open>Slugs\<close>

text \<open>
  \<^verbatim>\<open>s.toLowerCase().replace(/[^a-z0-9]+/g, '-').replace(/(^-|-$)/g, '')\<close>.
  The first replacement puts one \<^verbatim>\<open>-\<close> for every maximal run of characters outside
  the class; the second deletes a \<^verbatim>\<open>-\<close> that is the first character and a
  \<^verbatim>\<open>-\<close> that is the last one.
\<close>

definition in_class :: "char \<Rightarrow> bool" where
  "in_class c = (c \<in> set ''abcdefghijklmnopqrstuvwxyz0123456789'')"

function replace_runs :: "string \<Rightarrow> string" where
  "replace_runs [] = []"
| "replace_runs (c # cs) =
     (if in_class c then c # replace_runs cs
      else CHR ''-'' # replace_runs (dropWhile (\<lambda>x. \<not> in_class x) cs))"
  by pat_completeness auto
termination
  by (relation "measure length") (auto simp: less_Suc_eq_le length_dropWhile_le)

definition strip_edges :: "string \<Rightarrow> string" where
  "strip_edges s =
     (let t = (case s of [] \<Rightarrow> [] | c # cs \<Rightarrow> if c = CHR ''-'' then cs else s)
      in if t \<noteq> [] \<and> last t = CHR ''-'' then butlast t else t)"

definition makeSlug :: "env \<Rightarrow> string \<Rightarrow> string" where
  "makeSlug E s = strip_edges (replace_runs (toLowerCase E s))"

section \<open>Admin: products\<close>

text \<open>
  A field of a JSON request body is absent (\<^verbatim>\<open>undefined\<close> after destructuring),
  \<^verbatim>\<open>null\<close>, or a value; values are of the type the handler expects of the field.
  The handlers below run after \<^verbatim>\<open>requireAdmin\<close> has let the request through.
\<close>

datatype 'a field = Undefined | Null | Val 'a

record product_body =
  b_name :: "string field"
  b_slug :: "string field"
  b_description :: "string field"
  b_priceCents :: "int field"
  b_imageUrl :: "string field"
  b_stock :: "int field"
  b_categorySlug :: "string field"

text \<open>\<^verbatim>\<open>x != null\<close>, \<^verbatim>\<open>x ?? y\<close>, and \<^verbatim>\<open>x || y\<close> on a string field.\<close>

definition not_nullish :: "'a field \<Rightarrow> bool" where
  "not_nullish x = (case x of Val v \<Rightarrow> True | _ \<Rightarrow> False)"

definition coalesce :: "'a field \<Rightarrow> 'a \<Rightarrow> 'a" where
  "coalesce x y = (case x of Val v \<Rightarrow> v | _ \<Rightarrow> y)"

definition truthy :: "string field \<Rightarrow> bool" where
  "truthy x = (case x of Val v \<Rightarrow> v \<noteq> [] | _ \<Rightarrow> False)"

definition or_else :: "string field \<Rightarrow> string \<Rightarrow> string" where
  "or_else x y = (case x of Val v \<Rightarrow> if v \<noteq> [] then v else y | _ \<Rightarrow> y)"

text \<open>
  \<^verbatim>\<open>prisma.category.findUnique({ where: { slug } })\<close>, and
  \<^verbatim>\<open>prisma.product.create\<close>, which fails on a clash of the identifier or of the
  unique slug, and on a price or a stock that does not fit 32 bits.
\<close>

definition category_by_slug :: "db \<Rightarrow> string \<Rightarrow> Category option" where
  "category_by_slug d sl = find (\<lambda>c. c_slug c = sl) (categories d)"

definition product_create :: "db \<Rightarrow> Product \<Rightarrow> exn + db" where
  "product_create d row =
     (if \<not> row_fits row then Inl ValidationError
      else if p_id row \<in> set (map p_id (products d)) \<or> p_slug row \<in> set (map p_slug (products d))
      then Inl UniqueConstraint
      else Inr (d\<lparr>products := products d @ [row]\<rparr>))"

text \<open>
  \<^verbatim>\<open>POST /api/v1/admin/products\<close>. The identifier and the creation time of the new
  row are drawn by the store and are inputs here. What the store throws rejects the
  handler's promise: the result is then \<open>Inl\<close>.
\<close>

definition admin_products_create ::
  "env \<Rightarrow> db \<Rightarrow> ident \<Rightarrow> int \<Rightarrow> product_body \<Rightarrow> exn + response \<times> db" where
  "admin_products_create E d newId now b =
     (if \<not> truthy (b_name b) \<or> \<not> not_nullish (b_priceCents b) \<or> \<not> truthy (b_categorySlug b)
      then Inr (json 400 (Error ''name, priceCents, categorySlug required''), d)
      else
        (case category_by_slug d (coalesce (b_categorySlug b) []) of
           None \<Rightarrow> Inr (json 400 (Error ''category not found''), d)
         | Some cat \<Rightarrow>
             (let row =
                \<lparr>p_id = newId,
                 p_name = coalesce (b_name b) [],
                 p_slug = (if truthy (b_slug b) then coalesce (b_slug b) []
                           else makeSlug E (coalesce (b_name b) [])),
                 p_description = coalesce (b_description b) [],
                 p_priceCents = coalesce (b_priceCents b) 0,
                 p_imageUrl = (case b_imageUrl b of Val u \<Rightarrow> Some u | _ \<Rightarrow> None),
                 p_stock = coalesce (b_stock b) 0,
                 p_categoryId = c_id cat,
                 p_createdAt = now\<rparr>
              in case product_create d row of
                   Inl e \<Rightarrow> Inl e
                 | Inr d' \<Rightarrow> Inr (json 200 (Item row), d'))))"

text \<open>
  The object \<^verbatim>\<open>data\<close> of \<^verbatim>\<open>PUT /api/v1/admin/products/:id\<close>: a column is
  \<open>None\<close> while the object has no such key. \<^verbatim>\<open>imageUrl\<close> is tested with
  \<^verbatim>\<open>!== undefined\<close>, the other fields with \<^verbatim>\<open>!= null\<close>.
\<close>

record product_data =
  d_name :: "string option"
  d_slug :: "string option"
  d_description :: "string option"
  d_priceCents :: "int option"
  d_imageUrl :: "string option option"
  d_stock :: "int option"
  d_categoryId :: "ident option"

definition update_data :: "env \<Rightarrow> product_body \<Rightarrow> product_data" where
  "update_data E b =
     \<lparr>d_name = (if not_nullish (b_name b) then Some (coalesce (b_name b) []) else None),
      d_slug = (if not_nullish (b_slug b)
                then Some (or_else (b_slug b) (makeSlug E (or_else (b_name b) [])))
                else None),
      d_description = (if not_nullish (b_description b)
                       then Some (coalesce (b_description b) []) else None),
      d_priceCents = (if not_nullish (b_priceCents b)
                      then Some (coalesce (b_priceCents b) 0) else None),
      d_imageUrl = (case b_imageUrl b of
                      Undefined \<Rightarrow> None | Null \<Rightarrow> Some None | Val u \<Rightarrow> Some (Some u)),
      d_stock = (if not_nullish (b_stock b) then Some (coalesce (b_stock b) 0) else None),
      d_categoryId = None\<rparr>"

definition apply_data :: "product_data \<Rightarrow> Product \<Rightarrow> Product" where
  "apply_data dt p =
     p\<lparr>p_name := (case d_name dt of Some v \<Rightarrow> v | None \<Rightarrow> p_name p),
       p_slug := (case d_slug dt of Some v \<Rightarrow> v | None \<Rightarrow> p_slug p),
       p_description := (case d_description dt of Some v \<Rightarrow> v | None \<Rightarrow> p_description p),
       p_priceCents := (case d_priceCents dt of Some v \<Rightarrow> v | None \<Rightarrow> p_priceCents p),
       p_imageUrl := (case d_imageUrl dt of Some v \<Rightarrow> v | None \<Rightarrow> p_imageUrl p),
       p_stock := (case d_stock dt of Some v \<Rightarrow> v | None \<Rightarrow> p_stock p),
       p_categoryId := (case d_categoryId dt of Some v \<Rightarrow> v | None \<Rightarrow> p_categoryId p)\<rparr>"

text \<open>
  \<^verbatim>\<open>prisma.product.update({ where: { id }, data })\<close>: fails when no row has the
  identifier, when the new slug is the slug of another row, or when the new price or
  stock does not fit 32 bits; answers the updated row.
\<close>

definition slug_taken :: "db \<Rightarrow> ident \<Rightarrow> product_data \<Rightarrow> bool" where
  "slug_taken d pid dt =
     (case d_slug dt of
        None \<Rightarrow> False
      | Some sl \<Rightarrow> \<exists>p\<in>set (products d). p_id p \<noteq> pid \<and> p_slug p = sl)"

definition product_update_data :: "db \<Rightarrow> ident \<Rightarrow> product_data \<Rightarrow> exn + Product \<times> db" where
  "product_update_data d pid dt =
     (case find (\<lambda>p. p_id p = pid) (products d) of
        None \<Rightarrow> Inl RecordNotFound
      | Some p \<Rightarrow>
          if slug_taken d pid dt then Inl UniqueConstraint
          else (case product_update d pid (apply_data dt) of
                  Inl e \<Rightarrow> Inl e
                | Inr d' \<Rightarrow> Inr (apply_data dt p, d')))"

definition admin_products_update ::
  "env \<Rightarrow> db \<Rightarrow> ident \<Rightarrow> product_body \<Rightarrow> exn + response \<times> db" where
  "admin_products_update E d pid b =
     (let dt = update_data E b in
      if truthy (b_categorySlug b) then
        (case category_by_slug d (coalesce (b_categorySlug b) []) of
           None \<Rightarrow> Inr (json 400 (Error ''category not found''), d)
         | Some cat \<Rightarrow>
             (case product_update_data d pid (dt\<lparr>d_categoryId := Some (c_id cat)\<rparr>) of
                Inl e \<Rightarrow> Inl e
              | Inr (item, d') \<Rightarrow> Inr (json 200 (Item item), d')))
      else
        (case product_update_data d pid dt of
           Inl e \<Rightarrow> Inl e
         | Inr (item, d') \<Rightarrow> Inr (json 200 (Item item), d')))"

section \<open>Sessions\<close>

text \<open>\<^verbatim>\<open>process.env.JWT_SECRET || 'dev-secret'\<close>\<close>

definition SECRET :: "env \<Rightarrow> string" where
  "SECRET E = (case JWT_SECRET E of Some v \<Rightarrow> if v \<noteq> [] then v else ''dev-secret''
               | None \<Rightarrow> ''dev-secret'')"

definition signToken :: "env \<Rightarrow> nat \<Rightarrow> ident \<Rightarrow> string" where
  "signToken E now userId = jwt_sign E userId (SECRET E) (7 * 24 * 3600) now"

text \<open>\<^verbatim>\<open>setAuthCookie(res, token); res.json({ user: { id, email, role } })\<close>\<close>

definition user_response :: "string \<Rightarrow> User \<Rightarrow> response" where
  "user_response token u =
     \<lparr>status = 200, body = UserInfo (u_id u) (u_email u) (u_role u), setCookie = Some token\<rparr>"

definition user_by_email :: "db \<Rightarrow> string \<Rightarrow> User option" where
  "user_by_email d e = find (\<lambda>u. u_email u = e) (users d)"

definition user_by_id :: "db \<Rightarrow> ident \<Rightarrow> User option" where
  "user_by_id d uid = find (\<lambda>u. u_id u = uid) (users d)"

definition user_create :: "db \<Rightarrow> User \<Rightarrow> exn + db" where
  "user_create d row =
     (if u_id row \<in> set (map u_id (users d)) \<or> u_email row \<in> set (map u_email (users d))
      then Inl UniqueConstraint
      else Inr (d\<lparr>users := users d @ [row]\<rparr>))"

record credentials =
  au_email :: "string option"
  au_password :: "string option"

text \<open>
  \<^verbatim>\<open>POST /api/v1/auth/register\<close>. The identifier of the new row and the salt are
  drawn by the store and by the library.
\<close>

definition register ::
  "env \<Rightarrow> db \<Rightarrow> ident \<Rightarrow> string \<Rightarrow> nat \<Rightarrow> credentials \<Rightarrow> exn + response \<times> db" where
  "register E d newId salt now b =
     (case au_email b of
        None \<Rightarrow> Inr (json 400 (Error ''Email and password required''), d)
      | Some em \<Rightarrow>
          (case au_password b of
             None \<Rightarrow> Inr (json 400 (Error ''Email and password required''), d)
           | Some pw \<Rightarrow>
               if em = [] \<or> pw = []
               then Inr (json 400 (Error ''Email and password required''), d)
               else
                 (case user_by_email d (toLowerCase E em) of
                    Some u \<Rightarrow> Inr (json 400 (Error ''Email already in use''), d)
                  | None \<Rightarrow>
                      (let row = \<lparr>u_id = newId, u_email = toLowerCase E em,
                                  u_passwordHash = bcrypt_hash E pw 10 salt, u_role = USER\<rparr>
                       in case user_create d row of
                            Inl e \<Rightarrow> Inl e
                          | Inr d' \<Rightarrow> Inr (user_response (signToken E now newId) row, d')))))"

text \<open>
  \<^verbatim>\<open>POST /api/v1/auth/login\<close>. An absent email makes \<^verbatim>\<open>email.toLowerCase()\<close>
  throw; the library refuses to compare an absent password.
\<close>

definition login :: "env \<Rightarrow> db \<Rightarrow> nat \<Rightarrow> credentials \<Rightarrow> exn + response \<times> db" where
  "login E d now b =
     (case au_email b of
        None \<Rightarrow> Inl TypeError
      | Some em \<Rightarrow>
          (case user_by_email d (toLowerCase E em) of
             None \<Rightarrow> Inr (json 400 (Error ''Invalid email or password''), d)
           | Some u \<Rightarrow>
               (case au_password b of
                  None \<Rightarrow> Inl IllegalArguments
                | Some pw \<Rightarrow>
                    if \<not> bcrypt_compare E pw (u_passwordHash u)
                    then Inr (json 400 (Error ''Invalid email or password''), d)
                    else Inr (user_response (signToken E now (u_id u)) u, d))))"

text \<open>
  \<^verbatim>\<open>readUserFromReq\<close>, given the \<^verbatim>\<open>auth\<close> cookie of the request: no user for
  a missing or empty cookie and for a token the library refuses.
\<close>

definition readUserFromReq :: "env \<Rightarrow> db \<Rightarrow> nat \<Rightarrow> string option \<Rightarrow> User option" where
  "readUserFromReq E d now cookie =
     (case cookie of
        None \<Rightarrow> None
      | Some token \<Rightarrow>
          if token = [] then None
          else (case jwt_verify E token (SECRET E) now of
                  None \<Rightarrow> None
                | Some uid \<Rightarrow> user_by_id d uid))"

section \<open>Product list\<close>

text \<open>
  The query of \<^verbatim>\<open>GET /api/v1/products\<close>. \<open>qy_page\<close> and \<open>qy_limit\<close> hold what
  \<^verbatim>\<open>Number\<close> makes of the raw parameter when there is one: a number, or \<open>NaN\<close> for
  a text that is no numeric literal. Numbers are exact rationals here; the infinities are
  left out. \<^verbatim>\<open>Math.max\<close> and \<^verbatim>\<open>Math.min\<close> answer \<open>NaN\<close> as soon as an argument
  is \<open>NaN\<close>, and so does the arithmetic.
\<close>

record list_query =
  qy_q :: "string option"
  qy_category :: "string option"
  qy_page :: "jsnum option"
  qy_limit :: "jsnum option"

definition js_lift :: "(rat \<Rightarrow> rat \<Rightarrow> rat) \<Rightarrow> jsnum \<Rightarrow> jsnum \<Rightarrow> jsnum" where
  "js_lift f a b =
     (case a of NaN \<Rightarrow> NaN | Num x \<Rightarrow> (case b of NaN \<Rightarrow> NaN | Num y \<Rightarrow> Num (f x y)))"

definition Math_max :: "jsnum \<Rightarrow> jsnum \<Rightarrow> jsnum" where
  "Math_max = js_lift max"

definition Math_min :: "jsnum \<Rightarrow> jsnum \<Rightarrow> jsnum" where
  "Math_min = js_lift min"

definition Math_ceil :: "jsnum \<Rightarrow> jsnum" where
  "Math_ceil a = (case a of NaN \<Rightarrow> NaN | Num x \<Rightarrow> Num (of_int \<lceil>x\<rceil>))"

definition query_page :: "list_query \<Rightarrow> jsnum" where
  "query_page qr = Math_max (Num 1) (case qy_page qr of None \<Rightarrow> Num 1 | Some n \<Rightarrow> n)"

definition query_limit :: "list_query \<Rightarrow> jsnum" where
  "query_limit qr =
     Math_min (Num 24) (Math_max (Num 1) (case qy_limit qr of None \<Rightarrow> Num 9 | Some n \<Rightarrow> n))"

definition query_skip :: "list_query \<Rightarrow> jsnum" where
  "query_skip qr = js_lift (*) (js_lift (-) (query_page qr) (Num 1)) (query_limit qr)"

text \<open>
  The filter \<^verbatim>\<open>where\<close>: \<^verbatim>\<open>q\<close> and \<^verbatim>\<open>category\<close> are trimmed and count only
  when something is left; the text filter asks the store for \<^verbatim>\<open>q\<close> inside the name
  or the description, the category filter for equality with the slug or the name of the
  product's category, both without regard to case.
\<close>

definition text_filter :: "env \<Rightarrow> list_query \<Rightarrow> Product \<Rightarrow> bool" where
  "text_filter E qr p =
     (case qy_q qr of
        None \<Rightarrow> True
      | Some s \<Rightarrow>
          trim E s = [] \<or> contains_insensitive E (p_name p) (trim E s)
            \<or> contains_insensitive E (p_description p) (trim E s))"

definition category_filter :: "env \<Rightarrow> db \<Rightarrow> list_query \<Rightarrow> Product \<Rightarrow> bool" where
  "category_filter E d qr p =
     (case qy_category qr of
        None \<Rightarrow> True
      | Some s \<Rightarrow>
          trim E s = [] \<or>
          (\<exists>c\<in>set (categories d). c_id c = p_categoryId p \<and>
             (equals_insensitive E (c_slug c) (trim E s)
                \<or> equals_insensitive E (c_name c) (trim E s))))"

definition where_products :: "env \<Rightarrow> db \<Rightarrow> list_query \<Rightarrow> Product list" where
  "where_products E d qr =
     filter (\<lambda>p. text_filter E qr p \<and> category_filter E d qr p) (products d)"

text \<open>
  \<^verbatim>\<open>findMany({ where, orderBy: { createdAt: 'desc' }, skip, take })\<close> for the
  \<^verbatim>\<open>skip\<close> and the \<^verbatim>\<open>take\<close> that reach the store. Of a number the store takes
  the whole part, so a limit of two and a half reads two rows; \<open>NaN\<close> is refused, and
  the handler, which catches nothing, then sends no page. The count and the page are read
  from the same store. The page count divides by a limit that is at least 1 whenever a
  page is sent.
\<close>

definition findMany_page :: "env \<Rightarrow> db \<Rightarrow> list_query \<Rightarrow> nat \<Rightarrow> nat \<Rightarrow> Product list" where
  "findMany_page E d qr sk tk =
     take tk (drop sk (sort_key (\<lambda>p. - p_createdAt p) (where_products E d qr)))"

definition as_nat :: "jsnum \<Rightarrow> nat option" where
  "as_nat a =
     (case a of
        NaN \<Rightarrow> None
      | Num x \<Rightarrow> if 0 \<le> x then Some (nat \<lfloor>x\<rfloor>) else None)"

definition products_list :: "env \<Rightarrow> db \<Rightarrow> list_query \<Rightarrow> exn + response" where
  "products_list E d qr =
     (let page = query_page qr; limit = query_limit qr; skip = query_skip qr;
          total = length (where_products E d qr)
      in case as_nat skip of
           None \<Rightarrow> Inl ValidationError
         | Some sk \<Rightarrow>
             (case as_nat limit of
                None \<Rightarrow> Inl ValidationError
              | Some tk \<Rightarrow>
                  Inr (json 200
                         (Page (findMany_page E d qr sk tk) page limit total
                            (Math_max (Num 1)
                               (Math_ceil (js_lift (/) (Num (of_nat total)) limit)))))))"

section \<open>A small catalogue\<close>

definition P1 :: Product where
  "P1 = \<lparr>p_id = ''P1'', p_name = ''Basic Tee'', p_slug = ''basic-tee'',
          p_description = ''Soft cotton tee'', p_priceCents = 1000,
          p_imageUrl = Some ''https://picsum.photos/seed/tee/400/300'',
          p_stock = 5, p_categoryId = ''c1'', p_createdAt = 1\<rparr>"

definition P2 :: Product where
  "P2 = \<lparr>p_id = ''P2'', p_name = ''Hoodie'', p_slug = ''hoodie'',
          p_description = ''Comfy hoodie'', p_priceCents = 4999,
          p_imageUrl = Some ''https://picsum.photos/seed/hoodie/400/300'',
          p_stock = 30, p_categoryId = ''c1'', p_createdAt = 2\<rparr>"

definition shop :: db where
  "shop = \<lparr>categories = [\<lparr>c_id = ''c1'', c_name = ''Clothing'', c_slug = ''clothing''\<rparr>],
            products = [P1, P2], users = [], orders = [], orderItems = []\<rparr>"

section \<open>Notions used in the statements\<close>

text \<open>
  The primary key of the product table, the whole units a cart takes of one product over
  all its lines, the order line a cart line and its product give, and the preconditions
  of one cart line against the store.
\<close>

definition product_keys :: "db \<Rightarrow> bool" where
  "product_keys d = distinct (map p_id (products d))"

definition product_by_id :: "db \<Rightarrow> ident \<Rightarrow> Product option" where
  "product_by_id d pid = find (\<lambda>p. p_id p = pid) (products d)"

definition ordered_quantity :: "cart_item list \<Rightarrow> ident \<Rightarrow> int" where
  "ordered_quantity its pid =
     sum_list (map (\<lambda>i. whole (quantity i)) (filter (\<lambda>i. productId i = pid) its))"

definition order_line :: "ident \<Rightarrow> cart_item \<Rightarrow> Product \<Rightarrow> OrderItem" where
  "order_line oid i p =
     \<lparr>oi_orderId = oid, oi_productId = productId i, oi_quantity = whole (quantity i),
      oi_priceCents = p_priceCents p\<rparr>"

definition line_ok :: "db \<Rightarrow> cart_item \<Rightarrow> bool" where
  "line_ok d i =
     (case product_by_id d (productId i) of
        None \<Rightarrow> False
      | Some p \<Rightarrow> 1 \<le> quantity i \<and> quantity i \<le> of_int (p_stock p))"

text \<open>The answer the first failing check of a cart line gives.\<close>

definition line_error :: "db \<Rightarrow> cart_item \<Rightarrow> response" where
  "line_error d i =
     (case product_by_id d (productId i) of
        None \<Rightarrow> json 400 (Error (''Product not found: '' @ productId i))
      | Some p \<Rightarrow>
          if quantity i < 1 then json 400 (Error ''Invalid quantity'')
          else json 400 (Error (''Not enough stock for '' @ p_name p)))"

text \<open>
  The normalization in the words of the specification: lower case; every run of
  characters that are not alphanumeric becomes one separator; separators at the start and
  at the end are trimmed away.
\<close>

definition alphanumeric :: "char \<Rightarrow> bool" where
  "alphanumeric c =
     (c \<in> set ''abcdefghijklmnopqrstuvwxyz'' \<or> c \<in> set ''ABCDEFGHIJKLMNOPQRSTUVWXYZ''
        \<or> c \<in> set ''0123456789'')"

fun collapse_runs :: "bool \<Rightarrow> string \<Rightarrow> string" where
  "collapse_runs in_run [] = []"
| "collapse_runs in_run (c # cs) =
     (if alphanumeric c then c # collapse_runs False cs
      else if in_run then collapse_runs True cs
      else CHR ''-'' # collapse_runs True cs)"

definition trim_separators :: "string \<Rightarrow> string" where
  "trim_separators s =
     rev (dropWhile (\<lambda>c. c = CHR ''-'') (rev (dropWhile (\<lambda>c. c = CHR ''-'') s)))"

definition slug_normalize :: "env \<Rightarrow> string \<Rightarrow> string" where
  "slug_normalize E s = trim_separators (collapse_runs False (toLowerCase E s))"

text \<open>No two separators in a row.\<close>

fun single_seps :: "string \<Rightarrow> bool" where
  "single_seps (a # b # cs) = (\<not> (a = CHR ''-'' \<and> b = CHR ''-'') \<and> single_seps (b # cs))"
| "single_seps _ = True"

definition P3 :: Product where
  "P3 = \<lparr>p_id = ''P3'', p_name = ''Wool  Cap!'', p_slug = ''wool-cap'',
          p_description = [], p_priceCents = 1499, p_imageUrl = None,
          p_stock = 0, p_categoryId = ''c1'', p_createdAt = 3\<rparr>"

text \<open>What the normalization relies on: lower-casing leaves no letter from A to Z.\<close>

definition lower_contract :: "env \<Rightarrow> bool" where
  "lower_contract E \<longleftrightarrow>
     (\<forall>s. \<forall>c\<in>set (toLowerCase E s). c \<notin> set ''ABCDEFGHIJKLMNOPQRSTUVWXYZ'')"


text \<open>
  A stand-in for the environment, and two users, for the examples: lower-casing and
  trimming as they are on ASCII text, plain matching, and libraries that keep the
  contract.
\<close>

definition lower_char :: "char \<Rightarrow> char" where
  "lower_char c =
     (case map_of (zip ''ABCDEFGHIJKLMNOPQRSTUVWXYZ'' ''abcdefghijklmnopqrstuvwxyz'') c of
        Some l \<Rightarrow> l
      | None \<Rightarrow> c)"

definition ascii_lower :: "string \<Rightarrow> string" where
  "ascii_lower s = map lower_char s"

definition is_space :: "char \<Rightarrow> bool" where
  "is_space c = (c \<in> set [CHR '' '', CHR 0x09, CHR 0x0A, CHR 0x0B, CHR 0x0C, CHR 0x0D])"

definition ascii_trim :: "string \<Rightarrow> string" where
  "ascii_trim s = rev (dropWhile is_space (rev (dropWhile is_space s)))"

definition toy :: env where
  "toy = \<lparr>JWT_SECRET = None,
           toLowerCase = ascii_lower,
           trim = ascii_trim,
           contains_insensitive = (\<lambda>s t. sublist (ascii_lower t) (ascii_lower s)),
           equals_insensitive = (\<lambda>s t. ascii_lower s = ascii_lower t),
           bcrypt_hash = (\<lambda>pw cost salt. pw),
           bcrypt_compare = (\<lambda>pw h. h = pw),
           jwt_sign = (\<lambda>uid secret life now. ''jwt.'' @ uid),
           jwt_verify = (\<lambda>token secret now.
              if take 4 token = ''jwt.'' then Some (drop 4 token) else None)\<rparr>"

definition alice :: User where
  "alice = \<lparr>u_id = ''u1'', u_email = ''alice@example.com'', u_passwordHash = ''wonderland'',
             u_role = USER\<rparr>"


text \<open>A field given as \<^verbatim>\<open>null\<close> read as a field that is not given.\<close>

definition null_as_absent :: "'a field \<Rightarrow> 'a field" where
  "null_as_absent x = (case x of Null \<Rightarrow> Undefined | _ \<Rightarrow> x)"




section \<open>Checkout: the snapshot, validation and the transaction\<close>

lemma Map_of_snoc: "Map_of (ps @ [p]) = (Map_of ps)(p_id p \<mapsto> p)"
  by (simp add: Map_of_def)

lemma Map_of_find: "Map_of ps k = find (\<lambda>p. p_id p = k) (rev ps)"
  by (induction ps rule: rev_induct) (simp_all add: Map_of_snoc Map_of_def)

lemma find_append_case:
  "find P (xs @ ys) = (case find P xs of None \<Rightarrow> find P ys | Some x \<Rightarrow> Some x)"
  by (induction xs) auto

lemma Map_of_Nil: "Map_of [] = Map.empty"
  by (simp add: Map_of_def)

lemma find_rev_distinct:
  "distinct (map f xs) \<Longrightarrow> find (\<lambda>x. f x = k) (rev xs) = find (\<lambda>x. f x = k) xs"
proof (induction xs)
  case Nil
  then show ?case by simp
next
  case (Cons x xs)
  show ?case
  proof (cases "f x = k")
    case True
    with Cons.prems have "\<forall>y\<in>set xs. f y \<noteq> k" by (fastforce simp: image_iff)
    then have "find (\<lambda>x. f x = k) (rev xs) = None"
      by (simp add: find_None_iff)
    with True show ?thesis by (simp add: find_append_case)
  next
    case False
    with Cons show ?thesis by (simp add: find_append_case split: option.splits)
  qed
qed

lemma find_filter_key:
  "k \<in> S \<Longrightarrow> find (\<lambda>x. f x = k) (filter (\<lambda>x. f x \<in> S) xs) = find (\<lambda>x. f x = k) xs"
  by (induction xs) auto

lemma snapshot_lookup:
  assumes "product_keys d" and "k \<in> set ids"
  shows "Map_of (findMany_in d ids) k = product_by_id d k"
proof -
  have "distinct (map p_id (findMany_in d ids))"
    using assms(1) by (simp add: findMany_in_def distinct_map_filter product_keys_def)
  then have "Map_of (findMany_in d ids) k = find (\<lambda>p. p_id p = k) (findMany_in d ids)"
    by (simp add: Map_of_find find_rev_distinct)
  also have "\<dots> = product_by_id d k"
    using assms(2) by (simp add: findMany_in_def find_filter_key product_by_id_def)
  finally show ?thesis .
qed

lemma validate_None_iff:
  "validate m its = None \<longleftrightarrow>
     (\<forall>i\<in>set its. \<exists>p. m (productId i) = Some p \<and> 1 \<le> quantity i
          \<and> quantity i \<le> of_int (p_stock p))"
  by (induction its) (auto split: option.splits)

lemma Map_of_key: "Map_of ps k = Some p \<Longrightarrow> p_id p = k \<and> p \<in> set ps"
  by (induction ps rule: rev_induct) (auto simp: Map_of_snoc Map_of_Nil split: if_splits)

lemma reduce_total_resolved:
  "list_all2 (\<lambda>i p. m (productId i) = Some p) its ps \<Longrightarrow>
   reduce_total m acc its
     = Inr (acc + sum_list (map2 (\<lambda>i p. of_int (p_priceCents p) * quantity i) its ps))"
  by (induction its ps arbitrary: acc rule: list_all2_induct) auto

lemma to_Int_Inr: "to_Int x = Inr n \<Longrightarrow> n = whole x"
  by (simp add: to_Int_def split: if_splits)

lemma product_update_Inr:
  "product_update d pid f = Inr d' \<Longrightarrow>
   d' = d\<lparr>products := map (\<lambda>p. if p_id p = pid then f p else p) (products d)\<rparr>"
  by (simp add: product_update_def split: if_splits)

lemma orderItem_create_Inr:
  "orderItem_create d oid pid qty price = Inr d' \<Longrightarrow>
   d' = d\<lparr>orderItems := orderItems d @
            [\<lparr>oi_orderId = oid, oi_productId = pid, oi_quantity = whole qty,
              oi_priceCents = price\<rparr>]\<rparr>"
  by (auto simp: orderItem_create_def split: sum.splits dest: to_Int_Inr)

lemma product_decrement_Inr:
  "product_decrement d pid qty = Inr d' \<Longrightarrow>
   d' = d\<lparr>products := map (\<lambda>p. if p_id p = pid then decrement_stock (whole qty) p else p)
                             (products d)\<rparr>"
  by (auto simp: product_decrement_def split: sum.splits dest: to_Int_Inr product_update_Inr)

lemma tx_items_result:
  "tx_items d oid m its = Inr d' \<Longrightarrow>
   list_all2 (\<lambda>i p. m (productId i) = Some p \<and> p_id p = productId i) its ps \<Longrightarrow>
   d' = d\<lparr>orderItems := orderItems d @ map2 (order_line oid) its ps,
          products := map (\<lambda>p. p\<lparr>p_stock := p_stock p - ordered_quantity its (p_id p)\<rparr>)
                        (products d)\<rparr>"
proof (induction its arbitrary: ps d)
  case Nil
  then show ?case by (simp add: ordered_quantity_def)
next
  case (Cons i its)
  from Cons.prems(2) obtain p ps' where ps: "ps = p # ps'"
    and hd: "m (productId i) = Some p" "p_id p = productId i"
    and tl: "list_all2 (\<lambda>i p. m (productId i) = Some p \<and> p_id p = productId i) its ps'"
    by (auto simp: list_all2_Cons1)
  from Cons.prems(1) hd(1) obtain d1 d2
    where c1: "orderItem_create d oid (p_id p) (quantity i) (p_priceCents p) = Inr d1"
      and c2: "product_decrement d1 (p_id p) (quantity i) = Inr d2"
      and c3: "tx_items d2 oid m its = Inr d'"
    by (auto split: sum.splits)
  have d1: "d1 = d\<lparr>orderItems := orderItems d @ [order_line oid i p]\<rparr>"
    using orderItem_create_Inr[OF c1] hd(2) by (simp add: order_line_def)
  have d2: "d2 = d1\<lparr>products :=
      map (\<lambda>q. if p_id q = p_id p then decrement_stock (whole (quantity i)) q else q)
          (products d1)\<rparr>"
    by (rule product_decrement_Inr[OF c2])
  from Cons.IH[OF c3 tl] have rest: "d' =
     d2\<lparr>orderItems := orderItems d2 @ map2 (order_line oid) its ps',
         products := map (\<lambda>p. p\<lparr>p_stock := p_stock p - ordered_quantity its (p_id p)\<rparr>)
                       (products d2)\<rparr>" .
  have prods: "map (\<lambda>p. p\<lparr>p_stock := p_stock p - ordered_quantity its (p_id p)\<rparr>) (products d2)
      = map (\<lambda>q. q\<lparr>p_stock := p_stock q - ordered_quantity (i # its) (p_id q)\<rparr>) (products d)"
    unfolding d2 d1 using hd(2) by (auto simp: decrement_stock_def ordered_quantity_def)
  have lines: "orderItems d2 @ map2 (order_line oid) its ps'
      = orderItems d @ map2 (order_line oid) (i # its) (p # ps')"
    unfolding d2 d1 by simp
  show ?case
    unfolding ps rest prods lines unfolding d2 d1 by simp
qed

lemma validate_status: "validate m its = Some r \<Longrightarrow> status r = 400"
  by (induction its) (auto simp: json_def split: option.splits if_splits)

lemma list_all2_choice: "\<forall>x\<in>set xs. \<exists>y. R x y \<Longrightarrow> \<exists>ys. list_all2 R xs ys"
proof (induction xs)
  case Nil
  then show ?case by simp
next
  case (Cons x xs)
  then obtain y ys where "R x y" "list_all2 R xs ys" by auto
  then have "list_all2 R (x # xs) (y # ys)" by simp
  then show ?case by blast
qed

lemma product_by_id_Some: "product_by_id d k = Some p \<Longrightarrow> p_id p = k \<and> p \<in> set (products d)"
  by (auto simp: product_by_id_def find_Some_iff)

lemma checkout_read_lookup:
  "product_keys d \<Longrightarrow> j \<in> set its \<Longrightarrow>
   Map_of (checkout_read d its) (productId j) = product_by_id d (productId j)"
  by (simp add: checkout_read_def snapshot_lookup)

lemma validate_append:
  "\<forall>j\<in>set pre. \<exists>p. m (productId j) = Some p \<and> 1 \<le> quantity j
        \<and> quantity j \<le> of_int (p_stock p) \<Longrightarrow>
   validate m (pre @ rest) = validate m rest"
  by (induction pre) auto

lemma validate_error: "validate m its = Some r \<Longrightarrow> \<exists>msg. r = json 400 (Error msg)"
  by (induction its) (auto split: option.splits if_splits)

lemma checkout_resume_failure:
  "status (fst (checkout_resume E its em snap d oid)) \<noteq> 200 \<Longrightarrow>
   snd (checkout_resume E its em snap d oid) = d"
  by (auto simp: checkout_resume_def Let_def json_def split: option.splits sum.splits)

lemma checkout_failure_no_effect:
  "status (fst (checkout E d oid b)) \<noteq> 200 \<Longrightarrow> snd (checkout E d oid b) = d"
  by (auto simp: checkout_def checkout_resume_failure split: option.splits)

lemma checkout_no_items:
  "co_items b = None \<or> co_items b = Some [] \<Longrightarrow>
   checkout E d oid b = (json 400 (Error ''No items''), d)"
  by (auto simp: checkout_def)

lemma checkout_first_failure:
  assumes keys: "product_keys d"
    and cart: "co_items b = Some (pre @ i # post)"
    and pre: "\<forall>j\<in>set pre. line_ok d j"
    and bad: "\<not> line_ok d i"
  shows "checkout E d oid b = (line_error d i, d)"
proof -
  let ?its = "pre @ i # post"
  let ?m = "Map_of (checkout_read d ?its)"
  have look: "\<And>j. j \<in> set ?its \<Longrightarrow> ?m (productId j) = product_by_id d (productId j)"
    using keys by (rule checkout_read_lookup)
  have "\<forall>j\<in>set pre. \<exists>p. ?m (productId j) = Some p \<and> 1 \<le> quantity j
      \<and> quantity j \<le> of_int (p_stock p)"
  proof
    fix j assume j: "j \<in> set pre"
    then have "?m (productId j) = product_by_id d (productId j)" by (simp add: look)
    moreover have "line_ok d j" using pre j by simp
    ultimately show "\<exists>p. ?m (productId j) = Some p \<and> 1 \<le> quantity j
        \<and> quantity j \<le> of_int (p_stock p)"
      by (auto simp: line_ok_def split: option.splits)
  qed
  then have "validate ?m ?its = validate ?m (i # post)"
    by (rule validate_append)
  moreover have "?m (productId i) = product_by_id d (productId i)"
    by (simp add: look)
  then have "validate ?m (i # post) = Some (line_error d i)"
    using bad by (auto simp: line_ok_def line_error_def split: option.splits)
  ultimately have "validate ?m ?its = Some (line_error d i)" by simp
  then show ?thesis
    using cart by (simp add: checkout_def checkout_resume_def)
qed

lemma Map_of_absent: "\<forall>p\<in>set ps. p_id p \<noteq> k \<Longrightarrow> Map_of ps k = None"
  by (simp add: Map_of_find find_None_iff)

lemma validate_unknown:
  "\<exists>i\<in>set its. m (productId i) = None \<Longrightarrow> \<exists>r. validate m its = Some r"
  by (induction its) (auto split: option.splits)

lemma checkout_unknown_product:
  assumes cart: "co_items b = Some its"
    and unknown: "\<exists>i\<in>set its. product_by_id d (productId i) = None"
  shows "\<exists>msg. checkout E d oid b = (json 400 (Error msg), d)"
proof -
  let ?m = "Map_of (checkout_read d its)"
  from unknown obtain i where i: "i \<in> set its" "product_by_id d (productId i) = None" by blast
  then have "\<forall>p\<in>set (products d). p_id p \<noteq> productId i"
    by (simp add: product_by_id_def find_None_iff)
  then have "?m (productId i) = None"
    by (intro Map_of_absent) (simp add: checkout_read_def findMany_in_def)
  with i(1) obtain r where r: "validate ?m its = Some r"
    using validate_unknown[of its ?m] by blast
  then obtain msg where "r = json 400 (Error msg)"
    using validate_error by blast
  moreover have "its \<noteq> []" using i(1) by auto
  ultimately show ?thesis
    using cart r by (auto simp: checkout_def checkout_resume_def)
qed

lemmas shop_simps = shop_def P1_def P2_def product_keys_def product_by_id_def line_ok_def line_error_def
  json_def checkout_def checkout_resume_def checkout_read_def findMany_in_def Map_of_def
  transaction_def order_create_def order_email_def orderItem_create_def
  product_update_def product_decrement_def decrement_stock_def order_line_def
  ordered_quantity_def to_Int_def whole_def Int32_def row_fits_def

text \<open>
  C3. The checks of a checkout come before any write, and a failing one ends the
  request with the store as it was: no items answers \<^verbatim>\<open>No items\<close>; an answer other
  than 200 leaves the store unchanged; when the lines before a line pass and that line
  fails, the answer is that line's first failing check (product not found, then
  quantity below 1, then stock below the quantity); and a cart with a product
  identifier the store does not know is refused with status 400 and no order, order
  line or stock change.
\<close>

theorem checkout_preconditions:
  "(co_items b = None \<or> co_items b = Some [] \<longrightarrow>
      checkout E d oid b = (json 400 (Error ''No items''), d))
   \<and> (status (fst (checkout E d oid b)) \<noteq> 200 \<longrightarrow> snd (checkout E d oid b) = d)
   \<and> (product_keys d \<longrightarrow>
        (\<forall>pre i post. co_items b = Some (pre @ i # post) \<and> (\<forall>j\<in>set pre. line_ok d j)
            \<and> \<not> line_ok d i \<longrightarrow> checkout E d oid b = (line_error d i, d)))
   \<and> (\<forall>its. co_items b = Some its \<and> (\<exists>i\<in>set its. product_by_id d (productId i) = None) \<longrightarrow>
        (\<exists>msg. checkout E d oid b = (json 400 (Error msg), d)))"
  using checkout_no_items[of b E d oid] checkout_failure_no_effect[of E d oid b]
    checkout_first_failure[of d b _ _ _ E oid] checkout_unknown_product[of b _ d E oid]
  by blast

theorem checkout_preconditions_witness:
  "product_keys shop
   \<and> line_ok shop \<lparr>productId = ''P1'', quantity = 1\<rparr>
   \<and> \<not> line_ok shop \<lparr>productId = ''nope'', quantity = 1\<rparr>
   \<and> product_by_id shop ''nope'' = None
   \<and> checkout toy shop ''o1''
        \<lparr>co_email = None,
         co_items = Some [\<lparr>productId = ''P1'', quantity = 1\<rparr>,
                          \<lparr>productId = ''nope'', quantity = 1\<rparr>]\<rparr>
       = (json 400 (Error ''Product not found: nope''), shop)
   \<and> checkout toy shop ''o1'' \<lparr>co_email = None, co_items = Some []\<rparr>
       = (json 400 (Error ''No items''), shop)"
proof -
  let ?l1 = "\<lparr>productId = ''P1'', quantity = 1\<rparr>"
  let ?l2 = "\<lparr>productId = ''nope'', quantity = 1\<rparr>"
  let ?b = "\<lparr>co_email = None, co_items = Some [?l1, ?l2]\<rparr>"
  let ?e = "\<lparr>co_email = None, co_items = Some []\<rparr>"
  have k: "product_keys shop"
    by (simp add: product_keys_def shop_def P1_def P2_def)
  have l1: "line_ok shop ?l1"
    by (simp add: line_ok_def product_by_id_def shop_def P1_def P2_def)
  have none: "product_by_id shop ''nope'' = None"
    by (simp add: product_by_id_def shop_def P1_def P2_def)
  have l2: "\<not> line_ok shop ?l2"
    by (simp add: line_ok_def none)
  have err: "line_error shop ?l2 = json 400 (Error ''Product not found: nope'')"
    by (simp add: line_error_def none)
  have "\<forall>pre i post. co_items ?b = Some (pre @ i # post) \<and> (\<forall>j\<in>set pre. line_ok shop j)
            \<and> \<not> line_ok shop i \<longrightarrow> checkout toy shop ''o1'' ?b = (line_error shop i, shop)"
    using checkout_preconditions[where b = ?b and E = toy and d = shop and oid = "''o1''"] k
    by (elim conjE) (erule (1) mp)
  from this[rule_format, of "[?l1]" ?l2 "[]"] l1 l2
  have first: "checkout toy shop ''o1'' ?b = (line_error shop ?l2, shop)"
    by simp
  have "co_items ?e = None \<or> co_items ?e = Some [] \<longrightarrow>
      checkout toy shop ''o1'' ?e = (json 400 (Error ''No items''), shop)"
    using checkout_preconditions[where b = ?e and E = toy and d = shop and oid = "''o1''"]
    by (elim conjE)
  then have empty: "checkout toy shop ''o1'' ?e = (json 400 (Error ''No items''), shop)"
    by simp
  from k l1 l2 none first err empty show ?thesis by simp
qed

text \<open>
  What a checkout that answers 200 has done: every line is resolved to its product in the
  store as read for validation; the total answered is the sum over the lines of that
  product's price times the quantity, and the order keeps the whole part of it; the order
  lines carry that price and the whole part of the quantity; and the stock of every
  product is lowered by the whole units the cart takes of it.
\<close>

lemma checkout_success:
  assumes keys: "product_keys d"
    and cart: "co_items b = Some its"
    and run: "checkout E d oid b = (r, d')"
    and ok: "status r = 200"
  shows "\<exists>ps. list_all2 (\<lambda>i p. product_by_id d (productId i) = Some p) its ps
      \<and> r = json 200
            (CheckoutOk oid (sum_list (map2 (\<lambda>i p. of_int (p_priceCents p) * quantity i) its ps)))
      \<and> orders d' = orders d @
            [\<lparr>o_id = oid, o_userEmail = order_email E (co_email b),
              o_totalCents =
                whole (sum_list (map2 (\<lambda>i p. of_int (p_priceCents p) * quantity i) its ps))\<rparr>]
      \<and> orderItems d' = orderItems d @ map2 (order_line oid) its ps
      \<and> products d' =
            map (\<lambda>p. p\<lparr>p_stock := p_stock p - ordered_quantity its (p_id p)\<rparr>) (products d)
      \<and> categories d' = categories d \<and> users d' = users d"
proof -
  let ?m = "Map_of (checkout_read d its)"
  let ?R = "\<lambda>i p. ?m (productId i) = Some p \<and> p_id p = productId i
                \<and> product_by_id d (productId i) = Some p"
  have ne: "its \<noteq> []"
    using cart run ok by (auto simp: checkout_def json_def)
  then have res: "checkout_resume E its (co_email b) (checkout_read d its) d oid = (r, d')"
    using cart run by (simp add: checkout_def)
  have val: "validate ?m its = None"
  proof (cases "validate ?m its")
    case None
    then show ?thesis .
  next
    case (Some r')
    then have "r = r'" using res by (simp add: checkout_resume_def)
    then show ?thesis using ok validate_status[OF Some] by simp
  qed
  have "\<forall>i\<in>set its. \<exists>p. ?R i p"
  proof
    fix i assume i: "i \<in> set its"
    with val obtain p where p: "?m (productId i) = Some p"
      by (auto simp: validate_None_iff)
    then have "product_by_id d (productId i) = Some p"
      using keys i by (simp add: checkout_read_lookup)
    moreover from this have "p_id p = productId i"
      by (auto dest: product_by_id_Some)
    ultimately show "\<exists>p. ?R i p" using p by blast
  qed
  then have "\<exists>ps. list_all2 ?R its ps"
    by (rule list_all2_choice)
  then obtain ps where ps: "list_all2 ?R its ps" ..
  let ?T = "sum_list (map2 (\<lambda>i p. of_int (p_priceCents p) * quantity i) its ps)"
  have "list_all2 (\<lambda>i p. ?m (productId i) = Some p) its ps"
    using ps by (rule list_all2_mono) simp
  then have tot: "reduce_total ?m 0 its = Inr ?T"
    using reduce_total_resolved[of ?m its ps 0] by simp
  have tr: "transaction E d oid (co_email b) ?T ?m its = Inr d'"
    and r: "r = json 200 (CheckoutOk oid ?T)"
    using res val tot ok
    by (auto simp: checkout_resume_def json_def split: sum.splits)
  let ?d1 = "d\<lparr>orders := orders d @
               [\<lparr>o_id = oid, o_userEmail = order_email E (co_email b),
                 o_totalCents = whole ?T\<rparr>]\<rparr>"
  from tr obtain d1 where oc: "order_create d oid (order_email E (co_email b)) ?T = Inr d1"
    and tx: "tx_items d1 oid ?m its = Inr d'"
    by (auto simp: transaction_def split: sum.splits)
  from oc have d1: "d1 = ?d1"
    by (auto simp: order_create_def split: sum.splits if_splits dest: to_Int_Inr)
  have "list_all2 (\<lambda>i p. ?m (productId i) = Some p \<and> p_id p = productId i) its ps"
    using ps by (rule list_all2_mono) simp
  from tx_items_result[OF tx this]
  have d': "d' = d1\<lparr>orderItems := orderItems d1 @ map2 (order_line oid) its ps,
            products := map (\<lambda>p. p\<lparr>p_stock := p_stock p - ordered_quantity its (p_id p)\<rparr>)
                          (products d1)\<rparr>" .
  have "list_all2 (\<lambda>i p. product_by_id d (productId i) = Some p) its ps"
    using ps by (rule list_all2_mono) simp
  with r d' show ?thesis unfolding d1 by (intro exI[of _ ps]) simp
qed

text \<open>The example of the specification: two units at 1000 of a product with five in stock.\<close>

lemma checkout_success_example:
  "checkout E shop ''o1'' \<lparr>co_email = None, co_items = Some [\<lparr>productId = ''P1'', quantity = 2\<rparr>]\<rparr>
       = (json 200 (CheckoutOk ''o1'' 2000),
          shop\<lparr>products := [P1\<lparr>p_stock := 3\<rparr>, P2],
               orders := [\<lparr>o_id = ''o1'', o_userEmail = None, o_totalCents = 2000\<rparr>],
               orderItems := [\<lparr>oi_orderId = ''o1'', oi_productId = ''P1'', oi_quantity = 2,
                               oi_priceCents = 1000\<rparr>]\<rparr>)"
  by (simp add: shop_simps)

lemma floor_three_halves: "\<lfloor>3 / 2 :: rat\<rfloor> = 1"
  by (simp add: floor_eq_iff)

text \<open>
  C4. The total, the order lines and the stock are meant to follow the requested
  quantity. The handler takes any number of at least 1 as a quantity: for one and a half
  units at 1000 of a product with five in stock it answers 200 with a total of 1500, the
  order line holds one unit and the stock goes down by one, to four.
\<close>

theorem checkout_fractional_quantity:
  "checkout E shop ''o1''
      \<lparr>co_email = None, co_items = Some [\<lparr>productId = ''P1'', quantity = 3 / 2\<rparr>]\<rparr>
       = (json 200 (CheckoutOk ''o1'' 1500),
          shop\<lparr>products := [P1\<lparr>p_stock := 4\<rparr>, P2],
               orders := [\<lparr>o_id = ''o1'', o_userEmail = None, o_totalCents = 1500\<rparr>],
               orderItems := [\<lparr>oi_orderId = ''o1'', oi_productId = ''P1'', oi_quantity = 1,
                               oi_priceCents = 1000\<rparr>]\<rparr>)"
  by (simp add: shop_simps floor_three_halves)

text \<open>
  A checkout whose lines name different products keeps every stock at or above zero.
\<close>

lemma line_error_status: "status (line_error d i) = 400"
  by (simp add: line_error_def json_def split: option.splits)

lemma checkout_ok_lines:
  assumes keys: "product_keys d" and cart: "co_items b = Some its"
    and ok: "status (fst (checkout E d oid b)) = 200"
  shows "\<forall>i\<in>set its. line_ok d i"
proof (rule ccontr)
  assume "\<not> (\<forall>i\<in>set its. line_ok d i)"
  then have "\<exists>i\<in>set its. \<not> line_ok d i" by simp
  then obtain pre i post where "its = pre @ i # post" "\<not> line_ok d i"
    "\<forall>j\<in>set pre. \<not> \<not> line_ok d j"
    by (auto dest!: split_list_first_prop)
  then have "checkout E d oid b = (line_error d i, d)"
    using keys cart by (intro checkout_first_failure[of d b pre i post]) simp_all
  with ok show False by (simp add: line_error_status)
qed

lemma ordered_quantity_distinct:
  "distinct (map productId its) \<Longrightarrow> i \<in> set its \<Longrightarrow>
   ordered_quantity its (productId i) = whole (quantity i)"
proof (induction its)
  case Nil
  then show ?case by simp
next
  case (Cons j its)
  show ?case
  proof (cases "i = j")
    case True
    with Cons.prems have "filter (\<lambda>x. productId x = productId j) its = []"
      by (fastforce simp: filter_empty_conv image_iff)
    with True show ?thesis by (simp add: ordered_quantity_def)
  next
    case False
    with Cons.prems have "i \<in> set its" "productId j \<noteq> productId i" by auto
    with Cons show ?thesis by (simp add: ordered_quantity_def)
  qed
qed

lemma ordered_quantity_none:
  "\<forall>i\<in>set its. productId i \<noteq> pid \<Longrightarrow> ordered_quantity its pid = 0"
  by (induction its) (auto simp: ordered_quantity_def)

lemma product_by_id_unique:
  "product_keys d \<Longrightarrow> p \<in> set (products d) \<Longrightarrow> product_by_id d (p_id p) = Some p"
  unfolding product_keys_def product_by_id_def
proof (induction "products d" arbitrary: d)
  case Nil
  then show ?case by simp
next
  case (Cons q qs)
  from Cons(2)[symmetric] Cons(3,4) show ?case
    using Cons(1)[of "d\<lparr>products := qs\<rparr>"] by (auto simp: image_iff)
qed

lemma whole_le: "1 \<le> x \<Longrightarrow> x \<le> of_int n \<Longrightarrow> whole x \<le> n"
  by (simp add: whole_def floor_le_iff)

lemma checkout_keeps_stock_nonnegative:
  assumes keys: "product_keys d" and cart: "co_items b = Some its"
    and lines: "distinct (map productId its)"
    and stock: "\<forall>p\<in>set (products d). 0 \<le> p_stock p"
  shows "\<forall>p\<in>set (products (snd (checkout E d oid b))). 0 \<le> p_stock p"
proof (cases "status (fst (checkout E d oid b)) = 200")
  case False
  then show ?thesis using stock by (simp add: checkout_failure_no_effect)
next
  case True
  obtain r d' where run: "checkout E d oid b = (r, d')" by (cases "checkout E d oid b")
  with True have "status r = 200" by simp
  from checkout_success[OF keys cart run this]
  have prods: "products d' =
      map (\<lambda>p. p\<lparr>p_stock := p_stock p - ordered_quantity its (p_id p)\<rparr>) (products d)"
    by blast
  have ok: "\<forall>i\<in>set its. line_ok d i"
    using checkout_ok_lines[OF keys cart True] .
  have "ordered_quantity its (p_id p) \<le> p_stock p" if p: "p \<in> set (products d)" for p
  proof (cases "\<exists>i\<in>set its. productId i = p_id p")
    case False
    then show ?thesis using stock p by (simp add: ordered_quantity_none)
  next
    case True
    then obtain i where i: "i \<in> set its" "productId i = p_id p" by blast
    have "product_by_id d (productId i) = Some p"
      using keys p i(2) by (simp add: product_by_id_unique)
    with ok i(1) have "1 \<le> quantity i" "quantity i \<le> of_int (p_stock p)"
      by (auto simp: line_ok_def)
    then have "whole (quantity i) \<le> p_stock p" by (rule whole_le)
    with ordered_quantity_distinct[OF lines i(1)] i(2) show ?thesis by simp
  qed
  then show ?thesis using run prods by auto
qed

text \<open>
  C2. Stock is meant never to fall below zero, whatever the cart. The validation loop
  compares every line with the stock read beforehand and does not add up the lines of one
  product: a cart with two lines of three units of a product that has five in stock is
  accepted, and the two decrements leave the stock at minus one.
\<close>

theorem checkout_repeated_product_oversells:
  "checkout E shop ''o1''
     \<lparr>co_email = None,
      co_items = Some [\<lparr>productId = ''P1'', quantity = 3\<rparr>, \<lparr>productId = ''P1'', quantity = 3\<rparr>]\<rparr>
   = (json 200 (CheckoutOk ''o1'' 6000),
      shop\<lparr>products := [P1\<lparr>p_stock := - 1\<rparr>, P2],
           orders := [\<lparr>o_id = ''o1'', o_userEmail = None, o_totalCents = 6000\<rparr>],
           orderItems := [\<lparr>oi_orderId = ''o1'', oi_productId = ''P1'', oi_quantity = 3,
                           oi_priceCents = 1000\<rparr>,
                          \<lparr>oi_orderId = ''o1'', oi_productId = ''P1'', oi_quantity = 3,
                           oi_priceCents = 1000\<rparr>]\<rparr>)"
  by (simp add: shop_simps)

text \<open>
  Served one after the other, the second of two checkouts of three units each, with five
  in stock, is refused for lack of stock.
\<close>

lemma two_checkouts_in_turn:
  "checkout E shop ''o1'' \<lparr>co_email = None, co_items = Some [\<lparr>productId = ''P1'', quantity = 3\<rparr>]\<rparr>
     = (json 200 (CheckoutOk ''o1'' 3000),
        shop\<lparr>products := [P1\<lparr>p_stock := 2\<rparr>, P2],
             orders := [\<lparr>o_id = ''o1'', o_userEmail = None, o_totalCents = 3000\<rparr>],
             orderItems := [\<lparr>oi_orderId = ''o1'', oi_productId = ''P1'', oi_quantity = 3,
                             oi_priceCents = 1000\<rparr>]\<rparr>)
   \<and> fst (checkout E
        (shop\<lparr>products := [P1\<lparr>p_stock := 2\<rparr>, P2],
             orders := [\<lparr>o_id = ''o1'', o_userEmail = None, o_totalCents = 3000\<rparr>],
             orderItems := [\<lparr>oi_orderId = ''o1'', oi_productId = ''P1'', oi_quantity = 3,
                             oi_priceCents = 1000\<rparr>]\<rparr>)
        ''o2'' \<lparr>co_email = None, co_items = Some [\<lparr>productId = ''P1'', quantity = 3\<rparr>]\<rparr>)
     = json 400 (Error ''Not enough stock for Basic Tee'')"
  by (simp add: shop_simps)

text \<open>
  C1. Two checkouts of three units each of a product that has five in stock, both read
  before either writes: both are answered with status 200 and the stock ends at minus
  one. The stock check lies outside the transaction, so it is not one unit with the
  decrement.
\<close>

theorem checkout_race_oversells:
  "two_checkouts_interleaved E shop
      [\<lparr>productId = ''P1'', quantity = 3\<rparr>] ''o1'' [\<lparr>productId = ''P1'', quantity = 3\<rparr>] ''o2''
   = (json 200 (CheckoutOk ''o1'' 3000), json 200 (CheckoutOk ''o2'' 3000),
      shop\<lparr>products := [P1\<lparr>p_stock := - 1\<rparr>, P2],
           orders := [\<lparr>o_id = ''o1'', o_userEmail = None, o_totalCents = 3000\<rparr>,
                      \<lparr>o_id = ''o2'', o_userEmail = None, o_totalCents = 3000\<rparr>],
           orderItems := [\<lparr>oi_orderId = ''o1'', oi_productId = ''P1'', oi_quantity = 3,
                           oi_priceCents = 1000\<rparr>,
                          \<lparr>oi_orderId = ''o2'', oi_productId = ''P1'', oi_quantity = 3,
                           oi_priceCents = 1000\<rparr>]\<rparr>)"
  by (simp add: two_checkouts_interleaved_def shop_simps)



section \<open>Admin update: what a request changes\<close>

lemma product_update_data_Inr:
  assumes "product_update_data d pid dt = Inr (item, d')"
  shows "\<exists>p. product_by_id d pid = Some p \<and> item = apply_data dt p
           \<and> d' = d\<lparr>products := map (\<lambda>q. if p_id q = pid then apply_data dt q else q)
                                     (products d)\<rparr>"
proof (cases "find (\<lambda>p. p_id p = pid) (products d)")
  case None
  with assms show ?thesis by (simp add: product_update_data_def)
next
  case (Some p)
  with assms have "product_update d pid (apply_data dt) = Inr d'" "item = apply_data dt p"
    by (auto simp: product_update_data_def split: if_splits sum.splits)
  with Some product_update_Inr[of d pid "apply_data dt" d'] show ?thesis
    by (simp add: product_by_id_def)
qed

lemma admin_update_cases:
  assumes "admin_products_update E d pid b = Inr (r, d')"
  obtains (refused) "truthy (b_categorySlug b)" and "r = json 400 (Error ''category not found'')"
      and "d' = d"
  | (applied) cid p where "cid = None \<or> truthy (b_categorySlug b)"
      and "product_by_id d pid = Some p"
      and "r = json 200 (Item (apply_data ((update_data E b)\<lparr>d_categoryId := cid\<rparr>) p))"
      and "d' = d\<lparr>products :=
                   map (\<lambda>q. if p_id q = pid
                            then apply_data ((update_data E b)\<lparr>d_categoryId := cid\<rparr>) q else q)
                       (products d)\<rparr>"
proof (cases "truthy (b_categorySlug b)")
  case True
  show ?thesis
  proof (cases "category_by_slug d (coalesce (b_categorySlug b) [])")
    case None
    with True assms have "r = json 400 (Error ''category not found'')" "d' = d"
      by (simp_all add: admin_products_update_def)
    with True show ?thesis by (rule refused)
  next
    case (Some cat)
    let ?dt = "(update_data E b)\<lparr>d_categoryId := Some (c_id cat)\<rparr>"
    from True Some assms obtain item where
      "product_update_data d pid ?dt = Inr (item, d')" "r = json 200 (Item item)"
      by (auto simp: admin_products_update_def Let_def split: sum.splits)
    with product_update_data_Inr[of d pid ?dt item d'] True show ?thesis
      by (auto intro: applied[of "Some (c_id cat)"])
  qed
next
  case False
  have same: "(update_data E b)\<lparr>d_categoryId := None\<rparr> = update_data E b"
    by (simp add: update_data_def)
  from False assms obtain item where
      "product_update_data d pid (update_data E b) = Inr (item, d')" "r = json 200 (Item item)"
      by (auto simp: admin_products_update_def Let_def split: sum.splits)
  with product_update_data_Inr[of d pid "update_data E b" item d'] show ?thesis
    by (auto intro: applied[of None] simp: same)
qed

lemma map_if_column:
  "(\<And>q. g (f q) = g q) \<Longrightarrow> map g (map (\<lambda>q. if P q then f q else q) xs) = map g xs"
  by (induction xs) auto

lemma filter_if_others:
  "(\<And>q. P (f q) = P q) \<Longrightarrow>
   filter (\<lambda>q. \<not> P q) (map (\<lambda>q. if P q then f q else q) xs) = filter (\<lambda>q. \<not> P q) xs"
  by (induction xs) auto

lemma update_data_null_as_absent:
  "update_data E (b\<lparr>b_name := null_as_absent (b_name b), b_slug := null_as_absent (b_slug b),
          b_description := null_as_absent (b_description b),
          b_priceCents := null_as_absent (b_priceCents b),
          b_stock := null_as_absent (b_stock b)\<rparr>) = update_data E b"
  by (simp add: update_data_def null_as_absent_def not_nullish_def coalesce_def or_else_def
      split: field.splits)

lemma admin_update_null_as_absent:
  "admin_products_update E d pid
       (b\<lparr>b_name := null_as_absent (b_name b), b_slug := null_as_absent (b_slug b),
          b_description := null_as_absent (b_description b),
          b_priceCents := null_as_absent (b_priceCents b),
          b_stock := null_as_absent (b_stock b)\<rparr>)
   = admin_products_update E d pid b"
  by (simp add: admin_products_update_def update_data_null_as_absent cong: if_cong)

lemmas admin_simps = admin_products_update_def update_data_def apply_data_def
  product_update_data_def product_update_def slug_taken_def category_by_slug_def
  not_nullish_def coalesce_def truthy_def or_else_def json_def shop_def P1_def P2_def
  row_fits_def Int32_def

text \<open>
  C9. An update that is answered changes, in the product table, only columns whose field
  the body gives: a column whose field is absent is the same before and after, as are the
  identifiers, the creation times, the rows of other products and the other tables. With
  the body \<^verbatim>\<open>{stock: 5}\<close> the product's stock becomes 5 and nothing else changes.
\<close>

theorem admin_update_frame:
  assumes "admin_products_update E d pid b = Inr (r, d')"
  shows "(b_name b = Undefined \<longrightarrow> map p_name (products d') = map p_name (products d))
     \<and> (b_slug b = Undefined \<longrightarrow> map p_slug (products d') = map p_slug (products d))
     \<and> (b_description b = Undefined \<longrightarrow>
          map p_description (products d') = map p_description (products d))
     \<and> (b_priceCents b = Undefined \<longrightarrow>
          map p_priceCents (products d') = map p_priceCents (products d))
     \<and> (b_imageUrl b = Undefined \<longrightarrow> map p_imageUrl (products d') = map p_imageUrl (products d))
     \<and> (b_stock b = Undefined \<longrightarrow> map p_stock (products d') = map p_stock (products d))
     \<and> (b_categorySlug b = Undefined \<longrightarrow>
          map p_categoryId (products d') = map p_categoryId (products d))
     \<and> map p_id (products d') = map p_id (products d)
     \<and> map p_createdAt (products d') = map p_createdAt (products d)
     \<and> filter (\<lambda>q. p_id q \<noteq> pid) (products d') = filter (\<lambda>q. p_id q \<noteq> pid) (products d)
     \<and> categories d' = categories d \<and> users d' = users d
     \<and> orders d' = orders d \<and> orderItems d' = orderItems d
     \<and> (b = \<lparr>b_name = Undefined, b_slug = Undefined, b_description = Undefined,
              b_priceCents = Undefined, b_imageUrl = Undefined, b_stock = Val 5,
              b_categorySlug = Undefined\<rparr> \<longrightarrow>
          products d' = map (\<lambda>q. if p_id q = pid then q\<lparr>p_stock := 5\<rparr> else q) (products d))"
  using assms
proof (cases rule: admin_update_cases)
  case refused
  then show ?thesis by (auto simp: truthy_def)
next
  case (applied cid p)
  let ?dt = "(update_data E b)\<lparr>d_categoryId := cid\<rparr>"
  have prods: "products d' = map (\<lambda>q. if p_id q = pid then apply_data ?dt q else q) (products d)"
    using applied(4) by simp
  have c1: "b_name b = Undefined \<longrightarrow> map p_name (products d') = map p_name (products d)"
    unfolding prods
    by (auto intro!: map_if_column simp: apply_data_def update_data_def not_nullish_def)
  have c2: "b_slug b = Undefined \<longrightarrow> map p_slug (products d') = map p_slug (products d)"
    unfolding prods
    by (auto intro!: map_if_column simp: apply_data_def update_data_def not_nullish_def)
  have c3: "b_description b = Undefined \<longrightarrow>
      map p_description (products d') = map p_description (products d)"
    unfolding prods
    by (auto intro!: map_if_column simp: apply_data_def update_data_def not_nullish_def)
  have c4: "b_priceCents b = Undefined \<longrightarrow>
      map p_priceCents (products d') = map p_priceCents (products d)"
    unfolding prods
    by (auto intro!: map_if_column simp: apply_data_def update_data_def not_nullish_def)
  have c5: "b_imageUrl b = Undefined \<longrightarrow>
      map p_imageUrl (products d') = map p_imageUrl (products d)"
    unfolding prods
    by (auto intro!: map_if_column simp: apply_data_def update_data_def)
  have c6: "b_stock b = Undefined \<longrightarrow> map p_stock (products d') = map p_stock (products d)"
    unfolding prods
    by (auto intro!: map_if_column simp: apply_data_def update_data_def not_nullish_def)
  have c7: "b_categorySlug b = Undefined \<longrightarrow>
      map p_categoryId (products d') = map p_categoryId (products d)"
    unfolding prods using applied(1)
    by (auto intro!: map_if_column simp: apply_data_def update_data_def truthy_def)
  have c8: "map p_id (products d') = map p_id (products d)"
    unfolding prods by (auto intro!: map_if_column simp: apply_data_def)
  have c9: "map p_createdAt (products d') = map p_createdAt (products d)"
    unfolding prods by (auto intro!: map_if_column simp: apply_data_def)
  have c10: "filter (\<lambda>q. p_id q \<noteq> pid) (products d') = filter (\<lambda>q. p_id q \<noteq> pid) (products d)"
    unfolding prods by (rule filter_if_others) (simp add: apply_data_def)
  have c11: "categories d' = categories d \<and> users d' = users d
      \<and> orders d' = orders d \<and> orderItems d' = orderItems d"
    using applied(4) by simp
  have c12: "b = \<lparr>b_name = Undefined, b_slug = Undefined, b_description = Undefined,
              b_priceCents = Undefined, b_imageUrl = Undefined, b_stock = Val 5,
              b_categorySlug = Undefined\<rparr> \<longrightarrow>
          products d' = map (\<lambda>q. if p_id q = pid then q\<lparr>p_stock := 5\<rparr> else q) (products d)"
  proof
    assume b: "b = \<lparr>b_name = Undefined, b_slug = Undefined, b_description = Undefined,
              b_priceCents = Undefined, b_imageUrl = Undefined, b_stock = Val 5,
              b_categorySlug = Undefined\<rparr>"
    then have "cid = None" using applied(1) by (simp add: truthy_def)
    then have "\<And>q. apply_data ?dt q = q\<lparr>p_stock := 5\<rparr>"
      using b by (simp add: apply_data_def update_data_def not_nullish_def coalesce_def)
    then show "products d' = map (\<lambda>q. if p_id q = pid then q\<lparr>p_stock := 5\<rparr> else q) (products d)"
      unfolding prods by simp
  qed
  from c1 c2 c3 c4 c5 c6 c7 c8 c9 c10 c11 c12 show ?thesis by blast
qed

theorem admin_update_frame_witness:
  "admin_products_update toy shop ''P2''
      \<lparr>b_name = Undefined, b_slug = Undefined, b_description = Undefined,
       b_priceCents = Undefined, b_imageUrl = Undefined, b_stock = Val 5,
       b_categorySlug = Undefined\<rparr>
     = Inr (json 200 (Item (P2\<lparr>p_stock := 5\<rparr>)), shop\<lparr>products := [P1, P2\<lparr>p_stock := 5\<rparr>]\<rparr>)
   \<and> products (shop\<lparr>products := [P1, P2\<lparr>p_stock := 5\<rparr>]\<rparr>)
       = map (\<lambda>q. if p_id q = ''P2'' then q\<lparr>p_stock := 5\<rparr> else q) (products shop)
   \<and> admin_products_update toy shop ''P2''
      \<lparr>b_name = Val ''Hoody'', b_slug = Undefined, b_description = Undefined,
       b_priceCents = Undefined, b_imageUrl = Undefined, b_stock = Undefined,
       b_categorySlug = Undefined\<rparr>
     = Inr (json 200 (Item (P2\<lparr>p_name := ''Hoody''\<rparr>)),
            shop\<lparr>products := [P1, P2\<lparr>p_name := ''Hoody''\<rparr>]\<rparr>)
   \<and> map p_stock (products (shop\<lparr>products := [P1, P2\<lparr>p_name := ''Hoody''\<rparr>]\<rparr>))
       = map p_stock (products shop)"
proof -
  let ?b1 = "\<lparr>b_name = Undefined, b_slug = Undefined, b_description = Undefined,
       b_priceCents = Undefined, b_imageUrl = Undefined, b_stock = Val 5,
       b_categorySlug = Undefined\<rparr>"
  let ?b2 = "\<lparr>b_name = Val ''Hoody'', b_slug = Undefined, b_description = Undefined,
       b_priceCents = Undefined, b_imageUrl = Undefined, b_stock = Undefined,
       b_categorySlug = Undefined\<rparr>"
  have run1: "admin_products_update toy shop ''P2'' ?b1
     = Inr (json 200 (Item (P2\<lparr>p_stock := 5\<rparr>)), shop\<lparr>products := [P1, P2\<lparr>p_stock := 5\<rparr>]\<rparr>)"
    by (simp add: admin_simps)
  have run2: "admin_products_update toy shop ''P2'' ?b2
     = Inr (json 200 (Item (P2\<lparr>p_name := ''Hoody''\<rparr>)),
            shop\<lparr>products := [P1, P2\<lparr>p_name := ''Hoody''\<rparr>]\<rparr>)"
    by (simp add: admin_simps)
  from admin_update_frame[OF run1] have "products (shop\<lparr>products := [P1, P2\<lparr>p_stock := 5\<rparr>]\<rparr>)
       = map (\<lambda>q. if p_id q = ''P2'' then q\<lparr>p_stock := 5\<rparr> else q) (products shop)"
    by blast
  moreover from admin_update_frame[OF run2]
  have "map p_stock (products (shop\<lparr>products := [P1, P2\<lparr>p_name := ''Hoody''\<rparr>]\<rparr>))
       = map p_stock (products shop)"
    by simp
  ultimately show ?thesis using run1 run2 by blast
qed

text \<open>
  C10. The presence test differs between fields. \<^verbatim>\<open>imageUrl: null\<close> is applied:
  after an update answered 200 the product has no image URL. \<^verbatim>\<open>null\<close> for name,
  slug, description, priceCents or stock leaves the column as it was, and the request
  does exactly what it does with these fields absent.
\<close>

theorem admin_update_null_fields:
  assumes "admin_products_update E d pid b = Inr (r, d')"
  shows "(b_imageUrl b = Null \<and> status r = 200 \<longrightarrow>
            (\<exists>item. r = json 200 (Item item) \<and> item \<in> set (products d') \<and> p_id item = pid
                \<and> p_imageUrl item = None)
          \<and> (\<forall>q\<in>set (products d'). p_id q = pid \<longrightarrow> p_imageUrl q = None))
     \<and> (b_name b = Null \<longrightarrow> map p_name (products d') = map p_name (products d))
     \<and> (b_slug b = Null \<longrightarrow> map p_slug (products d') = map p_slug (products d))
     \<and> (b_description b = Null \<longrightarrow>
          map p_description (products d') = map p_description (products d))
     \<and> (b_priceCents b = Null \<longrightarrow>
          map p_priceCents (products d') = map p_priceCents (products d))
     \<and> (b_stock b = Null \<longrightarrow> map p_stock (products d') = map p_stock (products d))
     \<and> admin_products_update E d pid
           (b\<lparr>b_name := null_as_absent (b_name b), b_slug := null_as_absent (b_slug b),
              b_description := null_as_absent (b_description b),
              b_priceCents := null_as_absent (b_priceCents b),
              b_stock := null_as_absent (b_stock b)\<rparr>)
         = admin_products_update E d pid b"
  using assms
proof (cases rule: admin_update_cases)
  case refused
  then show ?thesis by (simp add: json_def admin_update_null_as_absent)
next
  case (applied cid p)
  let ?dt = "(update_data E b)\<lparr>d_categoryId := cid\<rparr>"
  have prods: "products d' = map (\<lambda>q. if p_id q = pid then apply_data ?dt q else q) (products d)"
    using applied(4) by simp
  have p: "p \<in> set (products d)" "p_id p = pid"
    using applied(2) by (auto dest: product_by_id_Some)
  have img: "b_imageUrl b = Null \<Longrightarrow> p_imageUrl (apply_data ?dt q) = None" for q
    by (simp add: apply_data_def update_data_def)
  have key: "p_id (apply_data ?dt q) = p_id q" for q
    by (simp add: apply_data_def)
  have "apply_data ?dt p \<in> set (products d')"
    unfolding prods using p by force
  then have c0: "b_imageUrl b = Null \<and> status r = 200 \<longrightarrow>
            (\<exists>item. r = json 200 (Item item) \<and> item \<in> set (products d') \<and> p_id item = pid
                \<and> p_imageUrl item = None)"
    using applied(3) p(2) img key by auto
  have c0': "b_imageUrl b = Null \<and> status r = 200 \<longrightarrow>
      (\<forall>q\<in>set (products d'). p_id q = pid \<longrightarrow> p_imageUrl q = None)"
    unfolding prods using img key by auto
  have c1: "b_name b = Null \<longrightarrow> map p_name (products d') = map p_name (products d)"
    unfolding prods
    by (auto intro!: map_if_column simp: apply_data_def update_data_def not_nullish_def)
  have c2: "b_slug b = Null \<longrightarrow> map p_slug (products d') = map p_slug (products d)"
    unfolding prods
    by (auto intro!: map_if_column simp: apply_data_def update_data_def not_nullish_def)
  have c3: "b_description b = Null \<longrightarrow>
      map p_description (products d') = map p_description (products d)"
    unfolding prods
    by (auto intro!: map_if_column simp: apply_data_def update_data_def not_nullish_def)
  have c4: "b_priceCents b = Null \<longrightarrow>
      map p_priceCents (products d') = map p_priceCents (products d)"
    unfolding prods
    by (auto intro!: map_if_column simp: apply_data_def update_data_def not_nullish_def)
  have c6: "b_stock b = Null \<longrightarrow> map p_stock (products d') = map p_stock (products d)"
    unfolding prods
    by (auto intro!: map_if_column simp: apply_data_def update_data_def not_nullish_def)
  note c7 = admin_update_null_as_absent[of E d pid b]
  from c0 c0' c1 c2 c3 c4 c6 c7 show ?thesis by blast
qed

theorem admin_update_null_fields_witness:
  "admin_products_update toy shop ''P1''
      \<lparr>b_name = Null, b_slug = Null, b_description = Null, b_priceCents = Null,
       b_imageUrl = Null, b_stock = Null, b_categorySlug = Undefined\<rparr>
     = Inr (json 200 (Item (P1\<lparr>p_imageUrl := None\<rparr>)),
            shop\<lparr>products := [P1\<lparr>p_imageUrl := None\<rparr>, P2]\<rparr>)
   \<and> status (json 200 (Item (P1\<lparr>p_imageUrl := None\<rparr>))) = 200
   \<and> p_imageUrl P1 \<noteq> None
   \<and> p_imageUrl (P1\<lparr>p_imageUrl := None\<rparr>) = None
   \<and> map p_name (products (shop\<lparr>products := [P1\<lparr>p_imageUrl := None\<rparr>, P2]\<rparr>))
       = map p_name (products shop)"
proof -
  let ?b = "\<lparr>b_name = Null, b_slug = Null, b_description = Null, b_priceCents = Null,
       b_imageUrl = Null, b_stock = Null, b_categorySlug = Undefined\<rparr>"
  have run: "admin_products_update toy shop ''P1'' ?b
     = Inr (json 200 (Item (P1\<lparr>p_imageUrl := None\<rparr>)),
            shop\<lparr>products := [P1\<lparr>p_imageUrl := None\<rparr>, P2]\<rparr>)"
    by (simp add: admin_simps)
  have ok: "status (json 200 (Item (P1\<lparr>p_imageUrl := None\<rparr>))) = 200"
    by (simp add: json_def)
  have img: "p_imageUrl P1 \<noteq> None" by (simp add: P1_def)
  from admin_update_null_fields[OF run] ok
  have "(\<forall>q\<in>set (products (shop\<lparr>products := [P1\<lparr>p_imageUrl := None\<rparr>, P2]\<rparr>)).
         p_id q = ''P1'' \<longrightarrow> p_imageUrl q = None)
   \<and> map p_name (products (shop\<lparr>products := [P1\<lparr>p_imageUrl := None\<rparr>, P2]\<rparr>))
       = map p_name (products shop)"
    by simp
  then have "p_imageUrl (P1\<lparr>p_imageUrl := None\<rparr>) = None
   \<and> map p_name (products (shop\<lparr>products := [P1\<lparr>p_imageUrl := None\<rparr>, P2]\<rparr>))
       = map p_name (products shop)"
    by (simp add: P1_def)
  with run ok img show ?thesis by blast
qed




section \<open>Slugs: the code against the normalization\<close>

lemma lower_char_not_upper: "lower_char x \<notin> set ''ABCDEFGHIJKLMNOPQRSTUVWXYZ''"
  by (simp add: lower_char_def)

lemma toy_lower_contract: "lower_contract toy"
  using lower_char_not_upper by (auto simp: lower_contract_def toy_def ascii_lower_def)

lemma alphanumeric_iff:
  "alphanumeric c \<longleftrightarrow> in_class c \<or> c \<in> set ''ABCDEFGHIJKLMNOPQRSTUVWXYZ''"
  by (auto simp: alphanumeric_def in_class_def)

lemma alphanumeric_lower:
  "lower_contract E \<Longrightarrow> c \<in> set (toLowerCase E s) \<Longrightarrow> alphanumeric c = in_class c"
  unfolding lower_contract_def alphanumeric_iff by blast

lemma collapse_runs_True:
  "collapse_runs True t = collapse_runs False (dropWhile (\<lambda>x. \<not> alphanumeric x) t)"
  by (induction t) auto

lemma replace_runs_collapse:
  "(\<And>c. c \<in> set t \<Longrightarrow> alphanumeric c = in_class c) \<Longrightarrow>
   replace_runs t = collapse_runs False t"
proof (induction t rule: replace_runs.induct)
  case 1
  then show ?case by simp
next
  case (2 c cs)
  show ?case
  proof (cases "in_class c")
    case True
    then have "alphanumeric c" using "2.prems"[of c] by simp
    moreover have "replace_runs cs = collapse_runs False cs"
      using True "2.prems" by (intro "2.IH"(1)) auto
    ultimately show ?thesis using True by simp
  next
    case False
    then have na: "\<not> alphanumeric c" using "2.prems"[of c] by simp
    have same: "dropWhile (\<lambda>x. \<not> in_class x) cs = dropWhile (\<lambda>x. \<not> alphanumeric x) cs"
      using "2.prems" by (intro dropWhile_cong) auto
    have "replace_runs (dropWhile (\<lambda>x. \<not> in_class x) cs)
        = collapse_runs False (dropWhile (\<lambda>x. \<not> in_class x) cs)"
      using False "2.prems" by (intro "2.IH"(2)) (auto dest: set_dropWhileD)
    then show ?thesis
      using False na by (simp add: collapse_runs_True same)
  qed
qed

lemma alphanumeric_not_sep: "alphanumeric c \<Longrightarrow> c \<noteq> CHR ''-''"
  by (auto simp: alphanumeric_def)

lemma collapse_runs_single:
  "single_seps (collapse_runs f t) \<and>
   (f \<longrightarrow> collapse_runs f t = [] \<or> hd (collapse_runs f t) \<noteq> CHR ''-'')"
proof (induction t arbitrary: f)
  case Nil
  then show ?case by simp
next
  case (Cons c cs)
  show ?case
  proof (cases "alphanumeric c")
    case True
    then have "c \<noteq> CHR ''-''" by (rule alphanumeric_not_sep)
    moreover have "single_seps (collapse_runs False cs)" using Cons.IH[of False] by simp
    ultimately show ?thesis using True by (cases "collapse_runs False cs") auto
  next
    case False
    have t: "single_seps (collapse_runs True cs)"
      "collapse_runs True cs = [] \<or> hd (collapse_runs True cs) \<noteq> CHR ''-''"
      using Cons.IH[of True] by simp_all
    then show ?thesis using False by (cases "collapse_runs True cs") auto
  qed
qed

lemma single_seps_tl: "single_seps (c # cs) \<Longrightarrow> single_seps cs"
  by (cases cs) auto

lemma single_seps_front:
  "single_seps s \<Longrightarrow>
   dropWhile (\<lambda>c. c = CHR ''-'') s
     = (case s of [] \<Rightarrow> [] | c # cs \<Rightarrow> if c = CHR ''-'' then cs else s)"
  by (cases s rule: single_seps.cases) auto

lemma single_seps_snoc:
  "single_seps (t @ [b, CHR ''-'']) \<Longrightarrow> b \<noteq> CHR ''-''"
  by (induction t rule: single_seps.induct) auto

lemma single_seps_back:
  assumes "single_seps t"
  shows "rev (dropWhile (\<lambda>c. c = CHR ''-'') (rev t))
     = (if t \<noteq> [] \<and> last t = CHR ''-'' then butlast t else t)"
proof (cases t rule: rev_cases)
  case Nil
  then show ?thesis by simp
next
  case (snoc xs c)
  show ?thesis
  proof (cases "c = CHR ''-''")
    case False
    with snoc show ?thesis by simp
  next
    case True
    show ?thesis
    proof (cases xs rule: rev_cases)
      case Nil
      with snoc True show ?thesis by simp
    next
      case (snoc ys b)
      with \<open>t = xs @ [c]\<close> True assms have "b \<noteq> CHR ''-''"
        using single_seps_snoc[of ys b] by simp
      with snoc \<open>t = xs @ [c]\<close> True show ?thesis by (simp add: butlast_append)
    qed
  qed
qed

lemma strip_edges_trim: "single_seps s \<Longrightarrow> strip_edges s = trim_separators s"
proof -
  assume s: "single_seps s"
  let ?t = "case s of [] \<Rightarrow> [] | c # cs \<Rightarrow> if c = CHR ''-'' then cs else s"
  have "single_seps ?t"
    using s by (auto split: list.splits dest: single_seps_tl)
  then show ?thesis
    using s by (simp add: strip_edges_def trim_separators_def single_seps_front
        single_seps_back Let_def)
qed

lemma makeSlug_normalizes:
  assumes "lower_contract E"
  shows "makeSlug E s = slug_normalize E s"
proof -
  have "replace_runs (toLowerCase E s) = collapse_runs False (toLowerCase E s)"
    using assms by (intro replace_runs_collapse alphanumeric_lower)
  moreover have "single_seps (collapse_runs False (toLowerCase E s))"
    using collapse_runs_single[of False] by simp
  ultimately show ?thesis
    by (simp add: makeSlug_def slug_normalize_def strip_edges_trim)
qed

lemma admin_create_cases:
  assumes "admin_products_create E d newId now b = Inr (r, d')" and "status r = 200"
  shows "\<exists>row. r = json 200 (Item row) \<and> products d' = products d @ [row]
           \<and> p_name row = coalesce (b_name b) []
           \<and> p_slug row = (if truthy (b_slug b) then coalesce (b_slug b) []
                            else makeSlug E (coalesce (b_name b) []))"
  using assms
  by (auto simp: admin_products_create_def product_create_def Let_def json_def
      split: if_splits option.splits)

text \<open>
  On create without a slug (absent, \<^verbatim>\<open>null\<close> or empty) the stored slug is the
  normalization of the name of the new product; on update with the empty string as slug
  and a name in the same request, the stored slug is the normalization of that name,
  which is then the product's name.
\<close>

lemma slug_on_create:
  assumes "lower_contract E"
    and "admin_products_create E d newId now b = Inr (r, d')" and "status r = 200"
    and "\<not> truthy (b_slug b)"
  shows "\<exists>row. r = json 200 (Item row) \<and> products d' = products d @ [row]
         \<and> p_name row = coalesce (b_name b) [] \<and> p_slug row = slug_normalize E (p_name row)"
  using admin_create_cases[OF assms(2,3)] assms(1,4) by (auto simp: makeSlug_normalizes)

lemma slug_on_update_with_name:
  assumes lower: "lower_contract E"
    and run: "admin_products_update E d pid b = Inr (r, d')" and ok: "status r = 200"
    and sl: "b_slug b = Val []" and name: "b_name b = Val n" "n \<noteq> []"
  shows "\<forall>q\<in>set (products d'). p_id q = pid \<longrightarrow>
           p_name q = n \<and> p_slug q = slug_normalize E (p_name q)"
  using run
proof (cases rule: admin_update_cases)
  case refused
  with ok show ?thesis by (simp add: json_def)
next
  case (applied cid p)
  let ?dt = "(update_data E b)\<lparr>d_categoryId := cid\<rparr>"
  have slug: "p_slug (apply_data ?dt q) = slug_normalize E n" for q
    using sl name lower
    by (simp add: apply_data_def update_data_def not_nullish_def or_else_def makeSlug_normalizes)
  have nm: "p_name (apply_data ?dt q) = n" for q
    using name by (simp add: apply_data_def update_data_def not_nullish_def coalesce_def)
  have key: "p_id (apply_data ?dt q) = p_id q" for q
    by (simp add: apply_data_def)
  show ?thesis
  proof (intro ballI impI)
    fix q assume q: "q \<in> set (products d')" "p_id q = pid"
    then obtain q0 where "q = apply_data ?dt q0"
      using applied(4) key by (auto split: if_splits)
    then show "p_name q = n \<and> p_slug q = slug_normalize E (p_name q)"
      using slug[of q0] nm[of q0] by simp
  qed
qed

lemmas slug_simps = makeSlug_def strip_edges_def toy_def ascii_lower_def lower_char_def
  slug_normalize_def trim_separators_def alphanumeric_def in_class_def

lemma slug_examples:
  "admin_products_create toy shop ''P3'' 3
      \<lparr>b_name = Val ''Wool  Cap!'', b_slug = Undefined, b_description = Undefined,
       b_priceCents = Val 1499, b_imageUrl = Undefined, b_stock = Undefined,
       b_categorySlug = Val ''clothing''\<rparr>
     = Inr (json 200 (Item P3), shop\<lparr>products := [P1, P2, P3]\<rparr>)
   \<and> p_slug P3 = slug_normalize toy (p_name P3)
   \<and> admin_products_update toy shop ''P2''
      \<lparr>b_name = Val ''Zip Hoodie'', b_slug = Val [], b_description = Undefined,
       b_priceCents = Undefined, b_imageUrl = Undefined, b_stock = Undefined,
       b_categorySlug = Undefined\<rparr>
     = Inr (json 200 (Item (P2\<lparr>p_name := ''Zip Hoodie'', p_slug := ''zip-hoodie''\<rparr>)),
            shop\<lparr>products := [P1, P2\<lparr>p_name := ''Zip Hoodie'', p_slug := ''zip-hoodie''\<rparr>]\<rparr>)
   \<and> ''zip-hoodie'' = slug_normalize toy ''Zip Hoodie''"
  by (simp add: admin_products_create_def product_create_def admin_simps slug_simps P3_def
      Let_def)

text \<open>
  C6. On update with the slug cleared, the stored slug is meant to be derived from the
  product's name. The handler derives it from the name of the request alone:
  \<^verbatim>\<open>makeSlug(name || '')\<close>. Clearing the slug of the product named \<^verbatim>\<open>Hoodie\<close>
  without sending a name stores the empty string as its slug, where the normalization of
  its name is \<^verbatim>\<open>hoodie\<close>.
\<close>

theorem cleared_slug_not_derived:
  "admin_products_update toy shop ''P2''
      \<lparr>b_name = Undefined, b_slug = Val [], b_description = Undefined,
       b_priceCents = Undefined, b_imageUrl = Undefined, b_stock = Undefined,
       b_categorySlug = Undefined\<rparr>
     = Inr (json 200 (Item (P2\<lparr>p_slug := []\<rparr>)), shop\<lparr>products := [P1, P2\<lparr>p_slug := []\<rparr>]\<rparr>)
   \<and> p_name (P2\<lparr>p_slug := []\<rparr>) = ''Hoodie''
   \<and> slug_normalize toy ''Hoodie'' = ''hoodie''"
  by (simp add: admin_simps slug_simps)



section \<open>Sessions: login and registration\<close>

lemmas auth_simps = login_def register_def readUserFromReq_def user_by_email_def user_by_id_def
  user_create_def user_response_def signToken_def SECRET_def ascii_lower_def lower_char_def
  json_def toy_def alice_def shop_def

text \<open>
  With a password in the request, a login with an email no user has and a login with the
  email of a user and a password that does not match are answered alike: status 400, the
  message \<^verbatim>\<open>Invalid email or password\<close>, no cookie, and the store unchanged.
\<close>

lemma login_uniform_failure:
  assumes "au_email b1 = Some e1" and "user_by_email d (toLowerCase E e1) = None"
    and "au_email b2 = Some e2" and "user_by_email d (toLowerCase E e2) = Some u"
    and "au_password b2 = Some pw" and "\<not> bcrypt_compare E pw (u_passwordHash u)"
  shows "login E d now b1 = Inr (json 400 (Error ''Invalid email or password''), d)
       \<and> login E d now b2 = login E d now b1"
  using assms by (simp add: login_def)

lemma login_uniform_failure_example:
  "login toy (shop\<lparr>users := [alice]\<rparr>) 0
       \<lparr>au_email = Some ''bob@example.com'', au_password = Some ''wonderland''\<rparr>
     = Inr (json 400 (Error ''Invalid email or password''), shop\<lparr>users := [alice]\<rparr>)
   \<and> login toy (shop\<lparr>users := [alice]\<rparr>) 0
       \<lparr>au_email = Some ''Alice@Example.com'', au_password = Some ''looking-glass''\<rparr>
     = Inr (json 400 (Error ''Invalid email or password''), shop\<lparr>users := [alice]\<rparr>)"
  by (simp add: auth_simps)

text \<open>
  C7. The answer to a failed login is meant not to tell an unknown email from a known
  one. The login handler, unlike the registration handler, does not ask for the password
  to be there: with no password in the body, the email of a user makes
  \<^verbatim>\<open>bcrypt.compare\<close> throw, so the handler sends no 400, while an email no user has
  is answered 400 \<^verbatim>\<open>Invalid email or password\<close>.
\<close>

theorem login_without_password_tells_apart:
  "login toy (shop\<lparr>users := [alice]\<rparr>) 0
       \<lparr>au_email = Some ''alice@example.com'', au_password = None\<rparr>
     = Inl IllegalArguments
   \<and> login toy (shop\<lparr>users := [alice]\<rparr>) 0
       \<lparr>au_email = Some ''bob@example.com'', au_password = None\<rparr>
     = Inr (json 400 (Error ''Invalid email or password''), shop\<lparr>users := [alice]\<rparr>)"
  by (simp add: auth_simps)








section \<open>Product list: limit, page and order\<close>

text \<open>
  For a limit that is a number: the limit lies between 1 and 24 and is 9 when the query
  gives none; a page that is answered has at most that many items, all of them matching
  the filter, newest first, and the page count is the larger of 1 and the total divided
  by the limit, rounded up.
\<close>

lemma query_limit_default: "qy_limit qr = None \<Longrightarrow> query_limit qr = Num 9"
  by (simp add: query_limit_def Math_min_def Math_max_def js_lift_def)

lemma query_limit_range:
  "qy_limit qr \<noteq> Some NaN \<Longrightarrow> \<exists>x. query_limit qr = Num x \<and> 1 \<le> x \<and> x \<le> 24"
  by (cases "qy_limit qr")
     (auto simp: query_limit_def Math_min_def Math_max_def js_lift_def split: jsnum.splits)

lemma query_limit_NaN: "qy_limit qr = Some NaN \<Longrightarrow> query_limit qr = NaN"
  by (simp add: query_limit_def Math_min_def Math_max_def js_lift_def)

lemma as_nat_Some: "as_nat a = Some n \<Longrightarrow> \<exists>x. a = Num x \<and> 0 \<le> x \<and> n = nat \<lfloor>x\<rfloor>"
  by (cases a) (auto simp: as_nat_def split: if_splits)

lemma findMany_page_sorted:
  "sorted_wrt (\<lambda>a b. p_createdAt b \<le> p_createdAt a) (findMany_page E d qr sk tk)"
proof -
  have "sorted (map (\<lambda>p. - p_createdAt p)
      (sort_key (\<lambda>p. - p_createdAt p) (where_products E d qr)))"
    by (rule sorted_sort_key)
  then have "sorted_wrt (\<lambda>a b. p_createdAt b \<le> p_createdAt a)
      (sort_key (\<lambda>p. - p_createdAt p) (where_products E d qr))"
    by (simp add: sorted_map)
  then show ?thesis
    unfolding findMany_page_def by (intro sorted_wrt_take sorted_wrt_drop)
qed

lemma products_list_page:
  assumes "products_list E d qr = Inr r"
  shows "\<exists>items x. r = json 200 (Page items (query_page qr) (Num x)
                          (length (where_products E d qr))
                          (Num (max 1 (of_int
                             \<lceil>rat_of_nat (length (where_products E d qr)) / x\<rceil>))))
            \<and> query_limit qr = Num x \<and> 1 \<le> x \<and> x \<le> 24
            \<and> rat_of_nat (length items) \<le> x
            \<and> set items \<subseteq> set (where_products E d qr)
            \<and> sorted_wrt (\<lambda>a b. p_createdAt b \<le> p_createdAt a) items"
proof -
  from assms obtain sk tk where sk: "as_nat (query_skip qr) = Some sk"
    and tk: "as_nat (query_limit qr) = Some tk"
    and r: "r = json 200 (Page (findMany_page E d qr sk tk) (query_page qr) (query_limit qr)
                (length (where_products E d qr))
                (Math_max (Num 1)
                   (Math_ceil (js_lift (/) (Num (of_nat (length (where_products E d qr))))
                     (query_limit qr)))))"
    by (auto simp: products_list_def Let_def split: option.splits)
  from as_nat_Some[OF tk] obtain x where lim: "query_limit qr = Num x"
    and x: "0 \<le> x" "tk = nat \<lfloor>x\<rfloor>" by blast
  from lim have "qy_limit qr \<noteq> Some NaN" by (auto simp: query_limit_NaN)
  with lim have range: "1 \<le> x" "x \<le> 24"
    using query_limit_range[of qr] by auto
  have pc: "Math_max (Num 1)
              (Math_ceil (js_lift (/) (Num (of_nat (length (where_products E d qr))))
                     (query_limit qr)))
      = Num (max 1 (of_int \<lceil>rat_of_nat (length (where_products E d qr)) / x\<rceil>))"
    by (simp add: lim Math_max_def Math_ceil_def js_lift_def)
  have "length (findMany_page E d qr sk tk) \<le> tk"
    by (simp add: findMany_page_def)
  then have "rat_of_nat (length (findMany_page E d qr sk tk)) \<le> rat_of_nat tk"
    by simp
  also have "rat_of_nat tk = of_int \<lfloor>x\<rfloor>"
    using x by simp
  also have "\<dots> \<le> x" by simp
  finally have len: "rat_of_nat (length (findMany_page E d qr sk tk)) \<le> x" .
  have "set (findMany_page E d qr sk tk) \<subseteq> set (where_products E d qr)"
    unfolding findMany_page_def
    by (metis set_take_subset set_drop_subset subset_trans set_sort)
  then show ?thesis
    using r lim range pc len findMany_page_sorted[of E d qr sk tk]
    by (intro exI[of _ "findMany_page E d qr sk tk"] exI[of _ x]) simp
qed

lemmas list_simps = products_list_def query_limit_def query_skip_def query_page_def
  Math_min_def Math_max_def Math_ceil_def js_lift_def as_nat_def findMany_page_def
  where_products_def text_filter_def category_filter_def shop_def P1_def P2_def json_def

lemma products_list_example:
  "products_list E shop
      \<lparr>qy_q = None, qy_category = None, qy_page = None, qy_limit = Some (Num 1)\<rparr>
     = Inr (json 200 (Page [P2] (Num 1) (Num 1) 2 (Num 2)))"
  by (simp add: list_simps)

text \<open>A limit of two and a half reads two rows and is answered as it is.\<close>

lemma floor_five_halves: "\<lfloor>5 / 2 :: rat\<rfloor> = 2"
  by (simp add: floor_eq_iff)

lemma ceiling_four_fifths: "\<lceil>4 / 5 :: rat\<rceil> = 1"
  by (simp add: ceiling_eq_iff)

lemma products_list_fractional_limit:
  "products_list E shop
      \<lparr>qy_q = None, qy_category = None, qy_page = None, qy_limit = Some (Num (5 / 2))\<rparr>
     = Inr (json 200 (Page [P2, P1] (Num 1) (Num (5 / 2)) 2 (Num 1)))"
  by (simp add: list_simps floor_five_halves ceiling_four_fifths)

text \<open>
  C5. The limit is meant to be clamped to the range from 1 to 24 for every query. A
  \<^verbatim>\<open>limit\<close> parameter that is no number, as in \<^verbatim>\<open>?limit=abc\<close>, becomes
  \<open>NaN\<close>, which \<^verbatim>\<open>Math.max\<close> and \<^verbatim>\<open>Math.min\<close> hand on: the limit is
  \<open>NaN\<close>, outside the range, and no page is answered.
\<close>

theorem products_list_limit_not_clamped:
  "query_limit \<lparr>qy_q = None, qy_category = None, qy_page = None, qy_limit = Some NaN\<rparr> = NaN
   \<and> products_list E shop
        \<lparr>qy_q = None, qy_category = None, qy_page = None, qy_limit = Some NaN\<rparr>
       = Inl ValidationError"
  by (simp add: products_list_def query_limit_def query_skip_def query_page_def Math_min_def
      Math_max_def js_lift_def as_nat_def)


end
